theory Spec2Isabelle
  imports Main "HOL-Library.Word"
begin

unbundle bit_operations_syntax

section \<open>Environment-variable predicates (environment\_variables\_util.h)\<close>

text \<open>
  The header defines three macros, \<open>CheckIfTrue\<close>, \<open>CheckIfFalse\<close> and
  \<open>ToBooleanWithDefault\<close>, each expanding to a function body that owns a function-local
  \<open>static int sValue = -1\<close>. The static is the state of the model; \<open>env_reads\<close> is a
  ghost counter of how often the macro's \<open>EXPR\<close> (the read of the environment variable)
  has been evaluated. \<open>TrueCondition\<close> and \<open>FalseCondition\<close> are declared in
  environment\_variables\_parser.h, which is not part of the sources at hand: they are
  parameters of the model.
\<close>

record parser =
  TrueCondition :: "string \<Rightarrow> bool"
  FalseCondition :: "string \<Rightarrow> bool"

record static_int =
  sValue :: int
  env_reads :: nat

definition static_init :: static_int where
  "static_init = \<lparr>sValue = - 1, env_reads = 0\<rparr>"

definition CheckIfTrue :: "parser \<Rightarrow> string \<Rightarrow> static_int \<Rightarrow> bool \<times> static_int" where
  "CheckIfTrue P envValue s =
     (let s' = (if sValue s = - 1
                then s\<lparr>sValue := (if TrueCondition P envValue then 1 else 0),
                       env_reads := env_reads s + 1\<rparr>
                else s)
      in (sValue s' = 1, s'))"

definition CheckIfFalse :: "parser \<Rightarrow> string \<Rightarrow> static_int \<Rightarrow> bool \<times> static_int" where
  "CheckIfFalse P envValue s =
     (let s' = (if sValue s = - 1
                then s\<lparr>sValue := (if FalseCondition P envValue then 1 else 0),
                       env_reads := env_reads s + 1\<rparr>
                else s)
      in (sValue s' = 1, s'))"

text \<open>\<open>DEFAULT\<close> is a C++ \<open>bool\<close> at every use; assigning it to the \<open>int\<close> gives 0 or 1.\<close>

definition ToBooleanWithDefault ::
  "parser \<Rightarrow> string \<Rightarrow> bool \<Rightarrow> static_int \<Rightarrow> bool \<times> static_int" where
  "ToBooleanWithDefault P envValue DEFAULT s =
     (let s' = (if sValue s = - 1
                then s\<lparr>sValue := (if TrueCondition P envValue then 1
                                    else if FalseCondition P envValue then 0
                                    else (if DEFAULT then 1 else 0)),
                       env_reads := env_reads s + 1\<rparr>
                else s)
      in (sValue s' = 1, s'))"

text \<open>The names of the variables (namespace \<open>environment\<close>) and the process environment.\<close>

datatype env_var =
    clr_disable_optimizations | clr_enable_inlining | clr_enable_ngen
  | dump_il_rewrite_enabled | azure_app_services
  | traces_enabled | metrics_enabled | logs_enabled
  | netfx_assembly_redirection_enabled | instrumentation_enabled
  | traces_instrumentation_enabled | metrics_instrumentation_enabled
  | logs_instrumentation_enabled

type_synonym environment = "env_var \<Rightarrow> string"

definition GetEnvironmentValue :: "environment \<Rightarrow> env_var \<Rightarrow> string" where
  "GetEnvironmentValue env name = env name"

definition DisableOptimizations :: "parser \<Rightarrow> environment \<Rightarrow> static_int \<Rightarrow> bool \<times> static_int" where
  "DisableOptimizations P env = CheckIfTrue P (GetEnvironmentValue env clr_disable_optimizations)"

definition EnableInlining :: "parser \<Rightarrow> environment \<Rightarrow> static_int \<Rightarrow> bool \<times> static_int" where
  "EnableInlining P env = ToBooleanWithDefault P (GetEnvironmentValue env clr_enable_inlining) True"

definition IsNGENEnabled :: "parser \<Rightarrow> environment \<Rightarrow> static_int \<Rightarrow> bool \<times> static_int" where
  "IsNGENEnabled P env = ToBooleanWithDefault P (GetEnvironmentValue env clr_enable_ngen) False"

definition IsDumpILRewriteEnabled :: "parser \<Rightarrow> environment \<Rightarrow> static_int \<Rightarrow> bool \<times> static_int" where
  "IsDumpILRewriteEnabled P env = CheckIfTrue P (GetEnvironmentValue env dump_il_rewrite_enabled)"

definition IsAzureAppServices :: "parser \<Rightarrow> environment \<Rightarrow> static_int \<Rightarrow> bool \<times> static_int" where
  "IsAzureAppServices P env = CheckIfTrue P (GetEnvironmentValue env azure_app_services)"

definition AreTracesEnabled :: "parser \<Rightarrow> environment \<Rightarrow> static_int \<Rightarrow> bool \<times> static_int" where
  "AreTracesEnabled P env = ToBooleanWithDefault P (GetEnvironmentValue env traces_enabled) True"

definition AreMetricsEnabled :: "parser \<Rightarrow> environment \<Rightarrow> static_int \<Rightarrow> bool \<times> static_int" where
  "AreMetricsEnabled P env = ToBooleanWithDefault P (GetEnvironmentValue env metrics_enabled) True"

definition AreLogsEnabled :: "parser \<Rightarrow> environment \<Rightarrow> static_int \<Rightarrow> bool \<times> static_int" where
  "AreLogsEnabled P env = ToBooleanWithDefault P (GetEnvironmentValue env logs_enabled) True"

definition IsNetFxAssemblyRedirectionEnabled ::
  "parser \<Rightarrow> environment \<Rightarrow> static_int \<Rightarrow> bool \<times> static_int" where
  "IsNetFxAssemblyRedirectionEnabled P env =
     ToBooleanWithDefault P (GetEnvironmentValue env netfx_assembly_redirection_enabled) True"

definition AreInstrumentationsEnabledByDefault ::
  "parser \<Rightarrow> environment \<Rightarrow> static_int \<Rightarrow> bool \<times> static_int" where
  "AreInstrumentationsEnabledByDefault P env =
     ToBooleanWithDefault P (GetEnvironmentValue env instrumentation_enabled) True"

definition AreTracesInstrumentationsEnabledByDefault ::
  "parser \<Rightarrow> environment \<Rightarrow> bool \<Rightarrow> static_int \<Rightarrow> bool \<times> static_int" where
  "AreTracesInstrumentationsEnabledByDefault P env enabled_if_not_configured =
     ToBooleanWithDefault P (GetEnvironmentValue env traces_instrumentation_enabled)
       enabled_if_not_configured"

definition AreMetricsInstrumentationsEnabledByDefault ::
  "parser \<Rightarrow> environment \<Rightarrow> bool \<Rightarrow> static_int \<Rightarrow> bool \<times> static_int" where
  "AreMetricsInstrumentationsEnabledByDefault P env enabled_if_not_configured =
     ToBooleanWithDefault P (GetEnvironmentValue env metrics_instrumentation_enabled)
       enabled_if_not_configured"

definition AreLogsInstrumentationsEnabledByDefault ::
  "parser \<Rightarrow> environment \<Rightarrow> bool \<Rightarrow> static_int \<Rightarrow> bool \<times> static_int" where
  "AreLogsInstrumentationsEnabledByDefault P env enabled_if_not_configured =
     ToBooleanWithDefault P (GetEnvironmentValue env logs_instrumentation_enabled)
       enabled_if_not_configured"

text \<open>
  A process is a sequence of calls. Each call names the predicate, carries the argument
  (read only by the three predicates that take one) and the environment as it is at the
  moment of the call, so the environment may change between any two calls. Every predicate
  has a static of its own.
\<close>

datatype predicate =
    P_DisableOptimizations | P_EnableInlining | P_IsNGENEnabled | P_IsDumpILRewriteEnabled
  | P_IsAzureAppServices | P_AreTracesEnabled | P_AreMetricsEnabled | P_AreLogsEnabled
  | P_IsNetFxAssemblyRedirectionEnabled | P_AreInstrumentationsEnabledByDefault
  | P_AreTracesInstrumentationsEnabledByDefault
  | P_AreMetricsInstrumentationsEnabledByDefault
  | P_AreLogsInstrumentationsEnabledByDefault

fun invoke ::
  "parser \<Rightarrow> predicate \<Rightarrow> environment \<Rightarrow> bool \<Rightarrow> static_int \<Rightarrow> bool \<times> static_int" where
  "invoke P P_DisableOptimizations env a = DisableOptimizations P env"
| "invoke P P_EnableInlining env a = EnableInlining P env"
| "invoke P P_IsNGENEnabled env a = IsNGENEnabled P env"
| "invoke P P_IsDumpILRewriteEnabled env a = IsDumpILRewriteEnabled P env"
| "invoke P P_IsAzureAppServices env a = IsAzureAppServices P env"
| "invoke P P_AreTracesEnabled env a = AreTracesEnabled P env"
| "invoke P P_AreMetricsEnabled env a = AreMetricsEnabled P env"
| "invoke P P_AreLogsEnabled env a = AreLogsEnabled P env"
| "invoke P P_IsNetFxAssemblyRedirectionEnabled env a = IsNetFxAssemblyRedirectionEnabled P env"
| "invoke P P_AreInstrumentationsEnabledByDefault env a =
     AreInstrumentationsEnabledByDefault P env"
| "invoke P P_AreTracesInstrumentationsEnabledByDefault env a =
     AreTracesInstrumentationsEnabledByDefault P env a"
| "invoke P P_AreMetricsInstrumentationsEnabledByDefault env a =
     AreMetricsInstrumentationsEnabledByDefault P env a"
| "invoke P P_AreLogsInstrumentationsEnabledByDefault env a =
     AreLogsInstrumentationsEnabledByDefault P env a"

type_synonym statics = "predicate \<Rightarrow> static_int"

definition statics_init :: statics where
  "statics_init = (\<lambda>_. static_init)"

type_synonym call = "predicate \<times> environment \<times> bool"

fun run_calls :: "parser \<Rightarrow> call list \<Rightarrow> statics \<Rightarrow> (predicate \<times> bool) list \<times> statics" where
  "run_calls P [] st = ([], st)"
| "run_calls P ((p, env, a) # cs) st =
     (let (r, s') = invoke P p env a (st p);
          (rs, st') = run_calls P cs (st(p := s'))
      in ((p, r) # rs, st'))"

definition cache_ok :: "static_int \<Rightarrow> bool" where
  "cache_ok s = (if sValue s = - 1 then env_reads s = 0
                 else (sValue s = 0 \<or> sValue s = 1) \<and> env_reads s = 1)"

section \<open>Host types (cor\_profiler.cpp and the CLR headers it includes)\<close>

text \<open>
  An \<open>HRESULT\<close> is a signed 32-bit status; \<open>FAILED\<close> is the sign test of the
  CLR headers. Identifiers and metadata tokens are only compared, never computed with.
\<close>

type_synonym HRESULT = int
type_synonym ModuleID = nat
type_synonym AppDomainID = nat
type_synonym FunctionID = nat
type_synonym mdToken = nat

definition S_OK :: HRESULT where "S_OK = 0"
definition S_FALSE :: HRESULT where "S_FALSE = 1"
definition E_FAIL :: HRESULT where "E_FAIL = - 2147467259"

definition FAILED :: "HRESULT \<Rightarrow> bool" where
  "FAILED hr = (hr < 0)"

definition mdTokenNil :: mdToken where "mdTokenNil = 0"
definition mdTypeDefNil :: mdToken where "mdTypeDefNil = 0x02000000"
definition mdTypeSpecNil :: mdToken where "mdTypeSpecNil = 0x1b000000"

subsection \<open>Signatures and function information (clr\_helpers.h, used through its interface)\<close>

text \<open>
  The classes \<open>FunctionMethodArgument\<close>, \<open>FunctionMethodSignature\<close>, \<open>TypeInfo\<close> and
  \<open>FunctionInfo\<close> are declared outside the sources at hand. The records hold what the
  calls made on them in cor\_profiler.cpp return: \<open>GetTypeFlags\<close>, \<open>GetTypeTokName\<close>,
  \<open>GetTypeTok\<close>, \<open>TryParse\<close>, \<open>CallingConvention\<close>, \<open>GetRet\<close>, \<open>GetMethodArguments\<close>.
\<close>

datatype MethodArgumentTypeFlag = TypeFlagByRef | TypeFlagVoid | TypeFlagBoxedType

record FunctionMethodArgument =
  GetTypeFlags :: "MethodArgumentTypeFlag set"
  GetTypeTokName :: string
  GetTypeTok :: mdToken

record FunctionMethodSignature =
  TryParse :: HRESULT
  CallingConvention :: "8 word"
  GetRet :: FunctionMethodArgument
  GetMethodArguments :: "FunctionMethodArgument list"

definition IMAGE_CEE_CS_CALLCONV_HASTHIS :: "8 word" where
  "IMAGE_CEE_CS_CALLCONV_HASTHIS = 0x20"

record TypeInfo =
  type_id :: mdToken
  type_name :: string
  type_spec :: mdToken
  isGeneric :: bool
  valueType :: bool

record FunctionInfo =
  function_id :: mdToken
  function_name :: string
  function_type :: TypeInfo
  method_signature :: FunctionMethodSignature

subsection \<open>Integration descriptors (integration.h, used through its fields)\<close>

type_synonym Version = "nat \<times> nat \<times> nat \<times> nat"

fun version_less :: "Version \<Rightarrow> Version \<Rightarrow> bool" where
  "version_less (a1, b1, c1, d1) (a2, b2, c2, d2) =
     (a1 < a2 \<or> (a1 = a2 \<and> (b1 < b2 \<or> (b1 = b2 \<and> (c1 < c2 \<or> (c1 = c2 \<and> d1 < d2))))))"

record MethodReference =
  assembly_name :: string
  ref_type_name :: string
  method_name :: string
  min_version :: Version
  max_version :: Version
  signature_types :: "string list"

record MethodReplacement =
  target_method :: MethodReference
  wrapper_method :: MethodReference

record IntegrationMethod =
  integration_name :: string
  replacement :: MethodReplacement

subsection \<open>Module records and the rejit handler\<close>

text \<open>
  \<open>IMetaDataImport\<close> is the host's metadata reader; the record holds the answers of the
  calls the profiler makes on it. \<open>FindTypeDefByName\<close> gives the \<open>HRESULT\<close> and the
  type definition found; \<open>EnumMethodsWithName\<close> gives the \<open>HRESULT\<close> and the tokens
  enumerated; \<open>GetFunctionInfo\<close> gives \<open>None\<close> when the function information it builds
  is not valid.
\<close>

record IMetaDataImport =
  FindTypeDefByName :: "string \<Rightarrow> HRESULT \<times> mdToken"
  EnumMethodsWithName :: "mdToken \<Rightarrow> string \<Rightarrow> HRESULT \<times> mdToken list"
  GetFunctionInfo :: "mdToken \<Rightarrow> FunctionInfo option"
  assembly_version :: Version

record ModuleMetadata =
  metadata_import :: IMetaDataImport
  assemblyName :: string
  app_domain_id :: AppDomainID

text \<open>
  Modelled from the spec: the rejit handler (rejit\_handler.cpp is not among the sources)
  keeps, per module, the module record and the set of method rewrite states keyed by
  method token; \<open>GetOrAddModule\<close>/\<open>GetOrAddMethod\<close> create the entry when it is missing,
  \<open>TryGetModule\<close>/\<open>ContainsMethod\<close> look it up, \<open>RemoveModule\<close> drops the module with
  all its pending rewrite state. \<open>RequestRejit\<close> is recorded as the batch handed to the
  host.
\<close>

record RejitHandlerModuleMethod =
  m_methodDef :: mdToken
  m_functionInfo :: "FunctionInfo option"
  m_methodReplacement :: "MethodReplacement option"

record RejitHandlerModule =
  m_moduleId :: ModuleID
  m_metadata :: "ModuleMetadata option"
  m_methods :: "mdToken \<rightharpoonup> RejitHandlerModuleMethod"

record RejitHandler =
  m_modules :: "ModuleID \<rightharpoonup> RejitHandlerModule"
  m_requests :: "(ModuleID list \<times> mdToken list) list"

definition TryGetModule :: "RejitHandler \<Rightarrow> ModuleID \<Rightarrow> RejitHandlerModule option" where
  "TryGetModule h moduleId = m_modules h moduleId"

definition ContainsMethod :: "RejitHandlerModule \<Rightarrow> mdToken \<Rightarrow> bool" where
  "ContainsMethod hm methodDef = (m_methods hm methodDef \<noteq> None)"

definition GetOrAddModule :: "RejitHandler \<Rightarrow> ModuleID \<Rightarrow> RejitHandlerModule" where
  "GetOrAddModule h moduleId =
     (case m_modules h moduleId of
        Some hm \<Rightarrow> hm
      | None \<Rightarrow> \<lparr>m_moduleId = moduleId, m_metadata = None, m_methods = Map.empty\<rparr>)"

definition GetOrAddMethod :: "RejitHandlerModule \<Rightarrow> mdToken \<Rightarrow> RejitHandlerModuleMethod" where
  "GetOrAddMethod hm methodDef =
     (case m_methods hm methodDef of
        Some m \<Rightarrow> m
      | None \<Rightarrow> \<lparr>m_methodDef = methodDef, m_functionInfo = None, m_methodReplacement = None\<rparr>)"

definition RemoveModule :: "RejitHandler \<Rightarrow> ModuleID \<Rightarrow> RejitHandler" where
  "RemoveModule h moduleId = h\<lparr>m_modules := (m_modules h)(moduleId := None)\<rparr>"

definition RequestRejit :: "RejitHandler \<Rightarrow> ModuleID list \<Rightarrow> mdToken list \<Rightarrow> RejitHandler" where
  "RequestRejit h vtModules vtMethodDefs =
     h\<lparr>m_requests := m_requests h @ [(vtModules, vtMethodDefs)]\<rparr>"

section \<open>The method-matching scan (CallTarget\_RequestRejitForModule)\<close>

text \<open>
  \<open>NumberOfArguments\<close> returns a \<open>ULONG\<close>; the scan compares it, promoted, with the
  \<open>size_t\<close> value \<open>signature_types.size() - 1\<close>, which wraps (modulo \<open>2 ^ 64\<close>) when
  the list is empty.
  The \<open>Logger\<close> calls of the loop are kept as the level and the message logged.
\<close>

definition NumberOfArguments :: "FunctionMethodSignature \<Rightarrow> 32 word" where
  "NumberOfArguments sig = word_of_nat (length (GetMethodArguments sig))"

datatype log_level = Debug | Info | Warn | Error

datatype scan_message =
    Caller_not_valid mdToken
  | Signature_cannot_be_parsed
  | Wrong_number_of_arguments "32 word"
  | Comparing_signature
  | Comparing_argument string string
  | Wrong_type_of_arguments
  | Enqueue_for_ReJIT ModuleID mdToken

record scan_state =
  handler :: RejitHandler
  vtModules :: "ModuleID list"
  vtMethodDefs :: "mdToken list"
  logged :: "(log_level \<times> scan_message) list"

text \<open>
  The loop \<open>for (unsigned int i = 0; i < numOfArgs; i++)\<close> over the argument positions,
  with its \<open>break\<close>: the result is \<open>argumentsMismatch\<close> and what was logged.
\<close>

fun compare_arguments ::
  "FunctionMethodArgument list \<Rightarrow> string list \<Rightarrow> nat list
     \<Rightarrow> bool \<times> (log_level \<times> scan_message) list" where
  "compare_arguments methodArguments sigs [] = (False, [])"
| "compare_arguments methodArguments sigs (i # rest) =
     (let argumentTypeName = GetTypeTokName (methodArguments ! i);
          integrationArgumentTypeName = sigs ! (i + 1);
          line = (Debug, Comparing_argument argumentTypeName integrationArgumentTypeName)
      in if argumentTypeName \<noteq> integrationArgumentTypeName \<and> integrationArgumentTypeName \<noteq> ''_''
         then (True, [line])
         else (let (argumentsMismatch, more) = compare_arguments methodArguments sigs rest
               in (argumentsMismatch, line # more)))"

text \<open>The body of the \<open>while\<close> loop, for one enumerated \<open>methodDef\<close>.\<close>

definition scan_method ::
  "ModuleID \<Rightarrow> ModuleMetadata \<Rightarrow> IntegrationMethod \<Rightarrow> mdToken \<Rightarrow> scan_state \<Rightarrow> scan_state" where
  "scan_method module_id module_metadata integration methodDef st =
     (case GetFunctionInfo (metadata_import module_metadata) methodDef of
        None \<Rightarrow> st\<lparr>logged := logged st @ [(Warn, Caller_not_valid methodDef)]\<rparr>
      | Some functionInfo \<Rightarrow>
          if FAILED (TryParse (method_signature functionInfo))
          then st\<lparr>logged := logged st @ [(Warn, Signature_cannot_be_parsed)]\<rparr>
          else
            let numOfArgs = NumberOfArguments (method_signature functionInfo);
                sigs = signature_types (target_method (replacement integration))
            in if int (unat numOfArgs) \<noteq> (int (length sigs) - 1) mod 2 ^ 64
               then st\<lparr>logged := logged st @ [(Debug, Wrong_number_of_arguments numOfArgs)]\<rparr>
               else
                 let methodArguments = GetMethodArguments (method_signature functionInfo);
                     (argumentsMismatch, lines) =
                        compare_arguments methodArguments sigs [0 ..< unat numOfArgs]
                 in if argumentsMismatch
                    then st\<lparr>logged := logged st @ (Debug, Comparing_signature) # lines
                                         @ [(Debug, Wrong_type_of_arguments)]\<rparr>
                    else
                      let moduleHandler = (GetOrAddModule (handler st) module_id)
                                            \<lparr>m_metadata := Some module_metadata\<rparr>;
                          methodHandler = (GetOrAddMethod moduleHandler methodDef)
                                            \<lparr>m_functionInfo := Some functionInfo,
                                             m_methodReplacement := Some (replacement integration)\<rparr>;
                          moduleHandler' = moduleHandler
                                            \<lparr>m_methods := (m_methods moduleHandler)
                                                 (methodDef \<mapsto> methodHandler)\<rparr>
                      in st\<lparr>handler := (handler st)
                                \<lparr>m_modules := (m_modules (handler st))(module_id \<mapsto> moduleHandler')\<rparr>,
                            vtModules := vtModules st @ [module_id],
                            vtMethodDefs := vtMethodDefs st @ [methodDef],
                            logged := logged st @ (Debug, Comparing_signature) # lines
                                        @ [(Debug, Enqueue_for_ReJIT module_id methodDef)]\<rparr>)"

text \<open>The \<open>while\<close> loop over the enumerated overloads: every one is visited, in order.\<close>

fun scan_methods ::
  "ModuleID \<Rightarrow> ModuleMetadata \<Rightarrow> IntegrationMethod \<Rightarrow> mdToken list \<Rightarrow> scan_state \<Rightarrow> scan_state" where
  "scan_methods module_id module_metadata integration [] st = st"
| "scan_methods module_id module_metadata integration (methodDef # rest) st =
     scan_methods module_id module_metadata integration rest
       (scan_method module_id module_metadata integration methodDef st)"

text \<open>
  The body of the \<open>for\<close> loop over the integrations. The helper \<open>FindTypeDefByName\<close> of
  clr\_helpers.h (outside the sources at hand) is taken to find the type exactly when the
  metadata lookup succeeds.
\<close>

definition scan_integration ::
  "ModuleID \<Rightarrow> ModuleMetadata \<Rightarrow> IntegrationMethod \<Rightarrow> scan_state \<Rightarrow> scan_state" where
  "scan_integration module_id module_metadata integration st =
     (let target = target_method (replacement integration);
          import = metadata_import module_metadata
      in if assembly_name target \<noteq> assemblyName module_metadata then st
         else if version_less (assembly_version import) (min_version target) then st
         else if version_less (max_version target) (assembly_version import) then st
         else
           (case FindTypeDefByName import (ref_type_name target) of
              (hr, typeDef) \<Rightarrow>
                if FAILED hr then st
                else scan_methods module_id module_metadata integration
                       (snd (EnumMethodsWithName import typeDef (method_name target))) st))"

fun scan_integrations ::
  "ModuleID \<Rightarrow> ModuleMetadata \<Rightarrow> IntegrationMethod list \<Rightarrow> scan_state \<Rightarrow> scan_state" where
  "scan_integrations module_id module_metadata [] st = st"
| "scan_integrations module_id module_metadata (integration # rest) st =
     scan_integrations module_id module_metadata rest
       (scan_integration module_id module_metadata integration st)"

definition CallTarget_RequestRejitForModule ::
  "RejitHandler \<Rightarrow> ModuleID \<Rightarrow> ModuleMetadata \<Rightarrow> IntegrationMethod list
     \<Rightarrow> nat \<times> RejitHandler \<times> (log_level \<times> scan_message) list" where
  "CallTarget_RequestRejitForModule h module_id module_metadata integrations =
     (let st = scan_integrations module_id module_metadata integrations
                 \<lparr>handler = h, vtModules = [], vtMethodDefs = [], logged = []\<rparr>;
          h' = (if vtMethodDefs st \<noteq> []
                then RequestRejit (handler st) (vtModules st) (vtMethodDefs st)
                else handler st)
      in (length (vtMethodDefs st), h', logged st))"

text \<open>
  The rule of the specification for the argument count, in its words: the declared count
  is compared with the descriptor's, an implicit receiver parameter being counted on
  instance methods (and, so, not on static ones).
\<close>

definition spec_argument_count_matches :: "FunctionMethodSignature \<Rightarrow> string list \<Rightarrow> bool" where
  "spec_argument_count_matches sig sigs =
     (let isStatic = (CallingConvention sig AND IMAGE_CEE_CS_CALLCONV_HASTHIS = 0);
          declared = length (GetMethodArguments sig)
      in (if isStatic then declared else declared + 1) = length sigs)"

text \<open>What the code compares, read off \<open>scan_method\<close>.\<close>

definition descriptor_matches :: "FunctionMethodSignature \<Rightarrow> string list \<Rightarrow> bool" where
  "descriptor_matches sig sigs =
     (unat (NumberOfArguments sig) + 1 = length sigs
      \<and> (\<forall>i < unat (NumberOfArguments sig).
            GetTypeTokName (GetMethodArguments sig ! i) = sigs ! (i + 1) \<or> sigs ! (i + 1) = ''_''))"

section \<open>The profiler object and its host entry points\<close>

text \<open>
  The fields of \<open>CorProfiler\<close> that the entry points below read or write (the
  source's trailing underscore of a member name is dropped).
  \<open>rejit_handler = None\<close> is the null pointer.
\<close>

record CorProfiler =
  is_attached :: bool
  rejit_handler :: "RejitHandler option"
  module_id_to_info_map :: "ModuleID \<rightharpoonup> ModuleMetadata"
  managed_profiler_module_id :: ModuleID
  managed_profiler_loaded_app_domains :: "AppDomainID set"
  managed_profiler_loaded_domain_neutral :: bool
  first_jit_compilation_app_domains :: "AppDomainID set"

text \<open>
  What an entry point hands back: a status, or the call it ends in when that call is into
  code outside the sources at hand (\<open>rejit_handler->NotifyReJITParameters\<close>, whose result
  the entry point returns). A call through a null \<open>rejit_handler\<close> is a fault.
\<close>

datatype outcome =
    Returned HRESULT
  | NotifyReJITParameters ModuleID mdToken ModuleMetadata
  | NullHandlerCall

text \<open>
  The entry points run on host threads. An entry point that tests \<open>is_attached\<close> and then
  takes \<open>module_id_to_info_maplock#\<close> may wait for the lock while other threads run whole
  critical sections; \<open>waited\<close> is the combined effect of those sections on the profiler
  (the identity when nobody interferes). Everything after the lock is taken runs on
  \<open>waited s\<close>.
\<close>

definition ModuleUnloadStarted ::
  "CorProfiler \<Rightarrow> ModuleID \<Rightarrow> (CorProfiler \<Rightarrow> CorProfiler) \<Rightarrow> HRESULT \<times> CorProfiler" where
  "ModuleUnloadStarted s module_id waited =
     (if \<not> is_attached s then (S_OK, s)
      else
        let s1 = waited s in
        if \<not> is_attached s1 then (S_OK, s1)
        else
          (case module_id_to_info_map s1 module_id of
             None \<Rightarrow> (S_OK, s1)
           | Some metadata \<Rightarrow>
               let s2 = (if app_domain_id metadata \<in> managed_profiler_loaded_app_domains s1
                         then s1\<lparr>managed_profiler_loaded_app_domains :=
                                   managed_profiler_loaded_app_domains s1 - {app_domain_id metadata}\<rparr>
                         else s1);
                   s3 = s2\<lparr>module_id_to_info_map := (module_id_to_info_map s2)(module_id := None)\<rparr>;
                   s4 = (case rejit_handler s3 of
                           None \<Rightarrow> s3
                         | Some h \<Rightarrow> s3\<lparr>rejit_handler := Some (RemoveModule h module_id)\<rparr>)
               in (S_OK, s4)))"

definition Shutdown :: "CorProfiler \<Rightarrow> HRESULT \<times> CorProfiler" where
  "Shutdown s =
     (let s1 = (case rejit_handler s of
                  None \<Rightarrow> s
                | Some h \<Rightarrow> s\<lparr>rejit_handler := None\<rparr>)
      in (S_OK, s1\<lparr>is_attached := False\<rparr>))"

definition ProfilerDetachSucceeded ::
  "CorProfiler \<Rightarrow> (CorProfiler \<Rightarrow> CorProfiler) \<Rightarrow> HRESULT \<times> CorProfiler" where
  "ProfilerDetachSucceeded s waited =
     (if \<not> is_attached s then (S_OK, s)
      else
        let s1 = waited s in
        if \<not> is_attached s1 then (S_OK, s1)
        else (S_OK, s1\<lparr>is_attached := False\<rparr>))"

definition AppDomainShutdownFinished ::
  "CorProfiler \<Rightarrow> AppDomainID \<Rightarrow> (CorProfiler \<Rightarrow> CorProfiler) \<Rightarrow> HRESULT \<times> CorProfiler" where
  "AppDomainShutdownFinished s appDomainId waited =
     (if \<not> is_attached s then (S_OK, s)
      else
        let s1 = waited s in
        if \<not> is_attached s1 then (S_OK, s1)
        else (S_OK, s1\<lparr>first_jit_compilation_app_domains :=
                          first_jit_compilation_app_domains s1 - {appDomainId}\<rparr>))"

text \<open>
  \<open>JITInlining\<close> takes no lock. \<open>info_->GetFunctionInfo\<close> is the host's answer for the
  callee: \<open>None\<close> when the \<open>HRESULT\<close> is a failure, else the module and the method token.
  \<open>pfShouldInline\<close> is the out-parameter: its value before the call comes in, its value
  after the call goes out.
\<close>

definition JITInlining ::
  "(FunctionID \<Rightarrow> (ModuleID \<times> mdToken) option) \<Rightarrow> CorProfiler \<Rightarrow> FunctionID \<Rightarrow> FunctionID
     \<Rightarrow> bool \<Rightarrow> HRESULT \<times> bool" where
  "JITInlining info_GetFunctionInfo s callerId calleeId pfShouldInline =
     (if \<not> is_attached s \<or> rejit_handler s = None then (S_OK, pfShouldInline)
      else
        (case rejit_handler s of
           None \<Rightarrow> (S_OK, pfShouldInline)
         | Some h \<Rightarrow>
             (case info_GetFunctionInfo calleeId of
                None \<Rightarrow> (S_OK, True)
              | Some (calleeModuleId, calleFunctionToken) \<Rightarrow>
                  (case TryGetModule h calleeModuleId of
                     Some handlerModule \<Rightarrow>
                       if ContainsMethod handlerModule calleFunctionToken then (S_OK, False)
                       else (S_OK, True)
                   | None \<Rightarrow> (S_OK, True)))))"

text \<open>
  \<open>GetReJITParameters\<close> tests \<open>is_attached\<close>, takes the lock for the lookup only, and
  ends in the call of the rejit handler.
\<close>

definition GetReJITParameters ::
  "CorProfiler \<Rightarrow> ModuleID \<Rightarrow> mdToken \<Rightarrow> (CorProfiler \<Rightarrow> CorProfiler) \<Rightarrow> outcome \<times> CorProfiler" where
  "GetReJITParameters s moduleId methodId waited =
     (if \<not> is_attached s then (Returned S_OK, s)
      else
        let s1 = waited s in
        (case module_id_to_info_map s1 moduleId of
           None \<Rightarrow> (Returned S_FALSE, s1)
         | Some module_metadata \<Rightarrow>
             (case rejit_handler s1 of
                None \<Rightarrow> (NullHandlerCall, s1)
              | Some h \<Rightarrow> (NotifyReJITParameters moduleId methodId module_metadata, s1))))"

text \<open>
  \<open>JITCachedFunctionSearchStarted\<close>: \<open>pbUseCachedFunction\<close> is \<open>None\<close> for a null pointer,
  else the value before the call; the value after the call is returned.
\<close>

definition JITCachedFunctionSearchStarted ::
  "(FunctionID \<Rightarrow> (ModuleID \<times> mdToken) option) \<Rightarrow> CorProfiler \<Rightarrow> FunctionID \<Rightarrow> bool option
     \<Rightarrow> (CorProfiler \<Rightarrow> CorProfiler) \<Rightarrow> (HRESULT \<times> bool option) \<times> CorProfiler" where
  "JITCachedFunctionSearchStarted info_GetFunctionInfo s functionId pbUseCachedFunction waited =
     (if \<not> is_attached s \<or> pbUseCachedFunction = None then ((S_OK, pbUseCachedFunction), s)
      else
        let s1 = waited s in
        (case info_GetFunctionInfo functionId of
           None \<Rightarrow> ((S_OK, pbUseCachedFunction), s1)
         | Some (module_id, function_token) \<Rightarrow>
             (case module_id_to_info_map s1 module_id of
                None \<Rightarrow> ((S_OK, Some True), s1)
              | Some module_metadata \<Rightarrow>
                  if app_domain_id module_metadata \<notin> first_jit_compilation_app_domains s1
                  then ((S_OK, Some False), s1)
                  else ((S_OK, Some True), s1))))"

section \<open>The instruction list and its editor (il\_rewriter.h, il\_rewriter\_wrapper.h)\<close>

text \<open>
  Modelled from the spec: the bytecode reader/writer is an external library that "converts
  a method body to/from an editable instruction list with explicit branch targets and
  exception-handling-region boundaries", and il\_rewriter.cpp and il\_rewriter\_wrapper.cpp
  are not among the sources. The list is the circular doubly linked list of \<open>ILInstr\<close>
  nodes behind the head \<open>m_IL\<close>; a node is known by its address \<open>node\<close>, the head has
  address 0, and the list is kept in \<open>m_pNext\<close> order without the head. A pointer to an
  instruction (\<open>m_pTarget\<close>, a clause boundary, the wrapper's position) is the address.
  The opcodes that the callback emits or tests are named; \<open>CEE_OTHER\<close> stands for every
  other opcode of a method body. An operand (local or argument index, token, constant)
  is \<open>m_Arg\<close>.
\<close>

datatype opcode =
    CEE_RET | CEE_LEAVE_S | CEE_LDNULL | CEE_LDARG | CEE_LDOBJ | CEE_LDLOC | CEE_LDLOCA
  | CEE_STLOC | CEE_LDC_I4 | CEE_NEWARR | CEE_DUP | CEE_BOX | CEE_STELEM_REF | CEE_CALL
  | CEE_RETHROW | CEE_ENDFINALLY | CEE_OTHER nat

record ILInstr =
  node :: nat
  m_opcode :: opcode
  m_Arg :: nat
  m_pTarget :: "nat option"

datatype clause_flags = COR_ILEXCEPTION_CLAUSE_NONE | COR_ILEXCEPTION_CLAUSE_FILTER
  | COR_ILEXCEPTION_CLAUSE_FINALLY | COR_ILEXCEPTION_CLAUSE_FAULT

record EHClause =
  m_Flags :: clause_flags
  m_pTryBegin :: nat
  m_pTryEnd :: nat
  m_pHandlerBegin :: nat
  m_pHandlerEnd :: nat
  m_ClassToken :: mdToken

text \<open>
  The rewriter and its wrapper in one record: the instruction list, the clause table
  (\<open>m_nEH\<close> is its length), the next unused node address (what \<open>NewILInstr\<close> hands
  out), and the wrapper's position \<open>m_ILInstr\<close>.
\<close>

record ILRewriterWrapper =
  m_IL :: "ILInstr list"
  m_pEH :: "EHClause list"
  m_fresh :: nat
  m_ILInstr :: nat

text \<open>
  \<open>InsertBefore\<close> links a node in front of the node at \<open>p\<close>; in front of the head is the
  end of the list. \<open>InsertAfter\<close> links it behind the node at \<open>p\<close>; behind the head is
  the front of the list. \<open>m_pNext\<close> and \<open>m_pPrev\<close> read the links (0 is the head).
\<close>

fun InsertBefore :: "nat \<Rightarrow> ILInstr \<Rightarrow> ILInstr list \<Rightarrow> ILInstr list" where
  "InsertBefore p i [] = [i]"
| "InsertBefore p i (x # xs) = (if node x = p then i # x # xs else x # InsertBefore p i xs)"

fun insert_behind :: "nat \<Rightarrow> ILInstr \<Rightarrow> ILInstr list \<Rightarrow> ILInstr list" where
  "insert_behind p i [] = [i]"
| "insert_behind p i (x # xs) = (if node x = p then x # i # xs else x # insert_behind p i xs)"

definition InsertAfter :: "nat \<Rightarrow> ILInstr \<Rightarrow> ILInstr list \<Rightarrow> ILInstr list" where
  "InsertAfter p i il = (if p = 0 then i # il else insert_behind p i il)"

fun next_in :: "nat \<Rightarrow> ILInstr list \<Rightarrow> nat" where
  "next_in p [] = 0"
| "next_in p [x] = 0"
| "next_in p (x # y # ys) = (if node x = p then node y else next_in p (y # ys))"

definition m_pNext :: "nat \<Rightarrow> ILInstr list \<Rightarrow> nat" where
  "m_pNext p il = (if p = 0 then (case il of [] \<Rightarrow> 0 | x # _ \<Rightarrow> node x) else next_in p il)"

definition head_m_pPrev :: "ILInstr list \<Rightarrow> nat" where
  "head_m_pPrev il = (if il = [] then 0 else node (last il))"

definition set_m_pTarget :: "nat \<Rightarrow> nat \<Rightarrow> ILRewriterWrapper \<Rightarrow> ILRewriterWrapper" where
  "set_m_pTarget p target w =
     w\<lparr>m_IL := map (\<lambda>i. if node i = p then i\<lparr>m_pTarget := Some target\<rparr> else i) (m_IL w)\<rparr>"

definition NewILInstr :: "ILRewriterWrapper \<Rightarrow> nat \<times> ILRewriterWrapper" where
  "NewILInstr w = (m_fresh w, w\<lparr>m_fresh := Suc (m_fresh w)\<rparr>)"

definition SetILPosition :: "nat \<Rightarrow> ILRewriterWrapper \<Rightarrow> ILRewriterWrapper" where
  "SetILPosition p w = w\<lparr>m_ILInstr := p\<rparr>"

text \<open>
  Every emitting method of the wrapper makes a new node and links it in front of the
  wrapper's position, which is what produces the layout documented above
  \<open>CallTarget_RewriterCallback\<close>. It returns the new node.
\<close>

definition emit :: "opcode \<Rightarrow> nat \<Rightarrow> ILRewriterWrapper \<Rightarrow> nat \<times> ILRewriterWrapper" where
  "emit opc arg w =
     (let (n, w1) = NewILInstr w;
          pNewInstr = \<lparr>node = n, m_opcode = opc, m_Arg = arg, m_pTarget = None\<rparr>
      in (n, w1\<lparr>m_IL := InsertBefore (m_ILInstr w1) pNewInstr (m_IL w1)\<rparr>))"

definition LoadNull :: "ILRewriterWrapper \<Rightarrow> nat \<times> ILRewriterWrapper" where
  "LoadNull = emit CEE_LDNULL 0"

definition LoadArgument :: "nat \<Rightarrow> ILRewriterWrapper \<Rightarrow> nat \<times> ILRewriterWrapper" where
  "LoadArgument index = emit CEE_LDARG index"

definition LoadObj :: "mdToken \<Rightarrow> ILRewriterWrapper \<Rightarrow> nat \<times> ILRewriterWrapper" where
  "LoadObj token = emit CEE_LDOBJ token"

definition LoadLocal :: "nat \<Rightarrow> ILRewriterWrapper \<Rightarrow> nat \<times> ILRewriterWrapper" where
  "LoadLocal index = emit CEE_LDLOC index"

definition LoadLocalAddress :: "nat \<Rightarrow> ILRewriterWrapper \<Rightarrow> nat \<times> ILRewriterWrapper" where
  "LoadLocalAddress index = emit CEE_LDLOCA index"

definition StLocal :: "nat \<Rightarrow> ILRewriterWrapper \<Rightarrow> nat \<times> ILRewriterWrapper" where
  "StLocal index = emit CEE_STLOC index"

definition Box :: "mdToken \<Rightarrow> ILRewriterWrapper \<Rightarrow> nat \<times> ILRewriterWrapper" where
  "Box token = emit CEE_BOX token"

definition CallMember :: "mdToken \<Rightarrow> ILRewriterWrapper \<Rightarrow> nat \<times> ILRewriterWrapper" where
  "CallMember token = emit CEE_CALL token"

definition CreateInstr :: "opcode \<Rightarrow> ILRewriterWrapper \<Rightarrow> nat \<times> ILRewriterWrapper" where
  "CreateInstr opc = emit opc 0"

definition Rethrow :: "ILRewriterWrapper \<Rightarrow> nat \<times> ILRewriterWrapper" where
  "Rethrow = emit CEE_RETHROW 0"

definition EndFinally :: "ILRewriterWrapper \<Rightarrow> nat \<times> ILRewriterWrapper" where
  "EndFinally = emit CEE_ENDFINALLY 0"

definition CreateArray :: "mdToken \<Rightarrow> nat \<Rightarrow> ILRewriterWrapper \<Rightarrow> ILRewriterWrapper" where
  "CreateArray type_ref count w = snd (emit CEE_NEWARR type_ref (snd (emit CEE_LDC_I4 count w)))"

definition BeginLoadValueIntoArray :: "nat \<Rightarrow> ILRewriterWrapper \<Rightarrow> ILRewriterWrapper" where
  "BeginLoadValueIntoArray arrayIndex w = snd (emit CEE_LDC_I4 arrayIndex (snd (emit CEE_DUP 0 w)))"

definition EndLoadValueIntoArray :: "ILRewriterWrapper \<Rightarrow> ILRewriterWrapper" where
  "EndLoadValueIntoArray w = snd (emit CEE_STELEM_REF 0 w)"

text \<open>
  \<open>Import\<close> builds the list from the method body the host holds: the nodes are numbered
  from 1 in body order, and a branch target given as a position in the body becomes the
  address of the node there.
\<close>

type_synonym il_code = "(opcode \<times> nat \<times> nat option) list"

definition Import :: "il_code \<Rightarrow> EHClause list \<Rightarrow> ILRewriterWrapper" where
  "Import body clauses =
     \<lparr>m_IL = map (\<lambda>(k, (opc, arg, target)).
                     \<lparr>node = Suc k, m_opcode = opc, m_Arg = arg, m_pTarget = map_option Suc target\<rparr>)
                 (enumerate 0 body),
      m_pEH = clauses,
      m_fresh = Suc (length body),
      m_ILInstr = 0\<rparr>"

section \<open>The rewriter callback (CallTarget\_RewriterCallback)\<close>

text \<open>
  Modelled from the spec: \<open>CallTargetTokens\<close> (calltarget\_tokens.cpp, not among the
  sources) extends the local-variable signature with the return-value, state, end-hook
  result and exception slots, initialises them, and writes the calls to the hooks. The
  record holds what its methods give the callback: the indices and tokens it assigns,
  the instructions with which \<open>ModifyLocalSigAndInitialize\<close> initialises the locals (at
  least one, the first being \<open>firstInstruction\<close>), the status of \<open>WriteBeginMethod\<close>, and
  the member references of the calls it writes. \<open>FASTPATH_COUNT\<close> is defined in
  calltarget\_tokens.h.
\<close>

record CallTargetTokens =
  FASTPATH_COUNT :: int
  callTargetStateIndex :: nat
  exceptionIndex :: nat
  callTargetReturnIndex :: nat
  returnValueIndex :: nat
  callTargetReturnToken :: mdToken
  init_first :: "opcode \<times> nat"
  init_rest :: "(opcode \<times> nat) list"
  GetObjectTypeRef :: mdToken
  GetExceptionTypeRef :: mdToken
  WriteBeginMethod_status :: HRESULT
  BeginMethod_ref :: mdToken
  LogException_ref :: mdToken
  EndMethod_ref :: mdToken
  GetReturnValue_ref :: mdToken

fun emit_all :: "(opcode \<times> nat) list \<Rightarrow> ILRewriterWrapper \<Rightarrow> ILRewriterWrapper" where
  "emit_all [] w = w"
| "emit_all ((opc, arg) # rest) w = emit_all rest (snd (emit opc arg w))"

definition ModifyLocalSigAndInitialize ::
  "CallTargetTokens \<Rightarrow> ILRewriterWrapper \<Rightarrow> nat \<times> ILRewriterWrapper" where
  "ModifyLocalSigAndInitialize T w =
     (let (firstInstruction, w1) = emit (fst (init_first T)) (snd (init_first T)) w
      in (firstInstruction, emit_all (init_rest T) w1))"

definition WriteBeginMethod ::
  "CallTargetTokens \<Rightarrow> ILRewriterWrapper \<Rightarrow> HRESULT \<times> nat \<times> ILRewriterWrapper" where
  "WriteBeginMethod T w =
     (if FAILED (WriteBeginMethod_status T) then (WriteBeginMethod_status T, 0, w)
      else (let (instr, w1) = CallMember (BeginMethod_ref T) w
            in (WriteBeginMethod_status T, instr, w1)))"

definition WriteLogException :: "CallTargetTokens \<Rightarrow> ILRewriterWrapper \<Rightarrow> nat \<times> ILRewriterWrapper" where
  "WriteLogException T = CallMember (LogException_ref T)"

definition WriteEndVoidReturnMemberRef ::
  "CallTargetTokens \<Rightarrow> ILRewriterWrapper \<Rightarrow> nat \<times> ILRewriterWrapper" where
  "WriteEndVoidReturnMemberRef T = CallMember (EndMethod_ref T)"

definition WriteEndReturnMemberRef ::
  "CallTargetTokens \<Rightarrow> ILRewriterWrapper \<Rightarrow> nat \<times> ILRewriterWrapper" where
  "WriteEndReturnMemberRef T = CallMember (EndMethod_ref T)"

definition WriteCallTargetReturnGetReturnValue ::
  "CallTargetTokens \<Rightarrow> ILRewriterWrapper \<Rightarrow> nat \<times> ILRewriterWrapper" where
  "WriteCallTargetReturnGetReturnValue T = CallMember (GetReturnValue_ref T)"

definition ProfilerAssemblyIsLoadedIntoAppDomain :: "CorProfiler \<Rightarrow> AppDomainID \<Rightarrow> bool" where
  "ProfilerAssemblyIsLoadedIntoAppDomain s app_domain =
     (managed_profiler_loaded_domain_neutral s \<or> app_domain \<in> managed_profiler_loaded_app_domains s)"

definition expected_wrapper_methods :: "string list" where
  "expected_wrapper_methods = [''OnMethodBegin'', ''OnMethodEnd'', ''OnAsyncMethodEnd'']"

text \<open>
  The probe loop: \<open>EnumMethodsWithName\<close> is asked for at most one token, so \<open>cTokens\<close> is
  1 when the enumeration has a token and 0 when it has none.
\<close>

fun probe_wrapper_methods :: "IMetaDataImport \<Rightarrow> mdToken \<Rightarrow> string list \<Rightarrow> bool" where
  "probe_wrapper_methods import wrapper_type_def [] = False"
| "probe_wrapper_methods import wrapper_type_def (expected_wrapper_method # rest) =
     (let (hr, tokens) = EnumMethodsWithName import wrapper_type_def expected_wrapper_method;
          cTokens = min 1 (length tokens)
      in if hr = S_OK \<and> cTokens > 0 then True
         else probe_wrapper_methods import wrapper_type_def rest)"

text \<open>
  "Load instance into the stack (if not static)": the block stands twice in the source,
  before the arguments of the begin hook and at the start of the end hook, where its
  first instruction is kept as \<open>endMethodTryStartInstr\<close>. \<open>None\<close> is \<open>return S_FALSE\<close>.
\<close>

definition load_instance ::
  "FunctionInfo \<Rightarrow> bool \<Rightarrow> ILRewriterWrapper \<Rightarrow> (nat \<times> ILRewriterWrapper) option" where
  "load_instance caller isStatic w =
     (if isStatic then
        (if valueType (function_type caller) then None else Some (LoadNull w))
      else
        (let (first, w1) = LoadArgument 0 w in
         if valueType (function_type caller) then
           (if type_spec (function_type caller) \<noteq> mdTypeSpecNil
            then Some (first, snd (LoadObj (type_spec (function_type caller)) w1))
            else if \<not> isGeneric (function_type caller)
            then Some (first, snd (LoadObj (type_id (function_type caller)) w1))
            else None)
         else Some (first, w1)))"

text \<open>"Load the method arguments to the stack": the two \<open>for\<close> loops and their choice.\<close>

fun load_arguments_fast ::
  "bool \<Rightarrow> FunctionMethodArgument list \<Rightarrow> nat list \<Rightarrow> ILRewriterWrapper
     \<Rightarrow> ILRewriterWrapper option" where
  "load_arguments_fast isStatic methodArguments [] w = Some w"
| "load_arguments_fast isStatic methodArguments (i # rest) w =
     (let w1 = snd (LoadArgument (i + (if isStatic then 0 else 1)) w);
          argTypeFlags = GetTypeFlags (methodArguments ! i)
      in if TypeFlagByRef \<in> argTypeFlags then None
         else load_arguments_fast isStatic methodArguments rest w1)"

fun load_arguments_slow ::
  "bool \<Rightarrow> FunctionMethodArgument list \<Rightarrow> nat list \<Rightarrow> ILRewriterWrapper
     \<Rightarrow> ILRewriterWrapper option" where
  "load_arguments_slow isStatic methodArguments [] w = Some w"
| "load_arguments_slow isStatic methodArguments (i # rest) w =
     (let w1 = BeginLoadValueIntoArray i w;
          w2 = snd (LoadArgument (i + (if isStatic then 0 else 1)) w1);
          argTypeFlags = GetTypeFlags (methodArguments ! i)
      in if TypeFlagByRef \<in> argTypeFlags then None
         else if TypeFlagBoxedType \<in> argTypeFlags then
           (let tok = GetTypeTok (methodArguments ! i)
            in if tok = mdTokenNil then None
               else load_arguments_slow isStatic methodArguments rest
                      (EndLoadValueIntoArray (snd (Box tok w2))))
         else load_arguments_slow isStatic methodArguments rest (EndLoadValueIntoArray w2))"

definition load_arguments ::
  "CallTargetTokens \<Rightarrow> bool \<Rightarrow> FunctionMethodArgument list \<Rightarrow> int \<Rightarrow> ILRewriterWrapper
     \<Rightarrow> ILRewriterWrapper option" where
  "load_arguments T isStatic methodArguments numArgs w =
     (if numArgs < FASTPATH_COUNT T
      then load_arguments_fast isStatic methodArguments [0 ..< nat numArgs] w
      else load_arguments_slow isStatic methodArguments [0 ..< nat numArgs]
             (CreateArray (GetObjectTypeRef T) (nat numArgs) w))"

text \<open>
  "BEGIN METHOD PART" up to "METHOD EXECUTION": the result is \<open>firstInstruction\<close>, the
  clause \<open>beginMethodExClause\<close> and the rewriter.
\<close>

definition begin_method_part ::
  "CallTargetTokens \<Rightarrow> FunctionInfo \<Rightarrow> bool \<Rightarrow> FunctionMethodArgument list \<Rightarrow> int
     \<Rightarrow> ILRewriterWrapper \<Rightarrow> (nat \<times> EHClause \<times> ILRewriterWrapper) option" where
  "begin_method_part T caller isStatic methodArguments numArgs w0 =
     (let (firstInstruction, w1) = ModifyLocalSigAndInitialize T w0 in
      case load_instance caller isStatic w1 of
        None \<Rightarrow> None
      | Some (_, w2) \<Rightarrow>
          (case load_arguments T isStatic methodArguments numArgs w2 of
             None \<Rightarrow> None
           | Some w3 \<Rightarrow>
               (let (hr, beginCallInstruction, w4) = WriteBeginMethod T w3 in
                if FAILED hr then None
                else
                  let w5 = snd (StLocal (callTargetStateIndex T) w4);
                      (pStateLeaveToBeginOriginalMethodInstr, w6) = CreateInstr CEE_LEAVE_S w5;
                      (beginMethodCatchFirstInstr, w7) = WriteLogException T w6;
                      (beginMethodCatchLeaveInstr, w8) = CreateInstr CEE_LEAVE_S w7;
                      beginMethodExClause =
                        \<lparr>m_Flags = COR_ILEXCEPTION_CLAUSE_NONE,
                         m_pTryBegin = firstInstruction,
                         m_pTryEnd = beginMethodCatchFirstInstr,
                         m_pHandlerBegin = beginMethodCatchFirstInstr,
                         m_pHandlerEnd = beginMethodCatchLeaveInstr,
                         m_ClassToken = GetExceptionTypeRef T\<rparr>;
                      beginOriginalMethodInstr = m_ILInstr w8;
                      w9 = set_m_pTarget pStateLeaveToBeginOriginalMethodInstr
                             beginOriginalMethodInstr w8;
                      w10 = set_m_pTarget beginMethodCatchLeaveInstr beginOriginalMethodInstr w9
                  in Some (firstInstruction, beginMethodExClause, w10))))"

text \<open>
  "Create return instruction and insert it at the end": the new node is a \<open>CEE_RET\<close>
  behind the last instruction, and the wrapper moves to it.
\<close>

definition append_method_return :: "ILRewriterWrapper \<Rightarrow> nat \<times> ILRewriterWrapper" where
  "append_method_return w =
     (let (n, w1) = NewILInstr w;
          methodReturnInstr = \<lparr>node = n, m_opcode = CEE_RET, m_Arg = 0, m_pTarget = None\<rparr>;
          w2 = w1\<lparr>m_IL := InsertAfter (head_m_pPrev (m_IL w1)) methodReturnInstr (m_IL w1)\<rparr>
      in (n, SetILPosition n w2))"

text \<open>
  "EXCEPTION CATCH" and "EXCEPTION FINALLY / END METHOD PART" down to the two \<open>m_pTarget\<close>
  assignments: the result is \<open>startExceptionCatch\<close>, \<open>rethrowInstr\<close>, the clause
  \<open>endMethodExClause\<close>, \<open>endFinallyInstr\<close> and the rewriter.
\<close>

definition end_method_part ::
  "CallTargetTokens \<Rightarrow> FunctionInfo \<Rightarrow> bool \<Rightarrow> bool \<Rightarrow> nat \<Rightarrow> ILRewriterWrapper
     \<Rightarrow> (nat \<times> nat \<times> EHClause \<times> nat \<times> ILRewriterWrapper) option" where
  "end_method_part T caller isStatic isVoid methodReturnInstr w0 =
     (let (startExceptionCatch, w1) = StLocal (exceptionIndex T) w0;
          (rethrowInstr, w2) = Rethrow (SetILPosition methodReturnInstr w1)
      in case load_instance caller isStatic w2 of
           None \<Rightarrow> None
         | Some (endMethodTryStartInstr, w3) \<Rightarrow>
             (let w4 = (if \<not> isVoid then snd (LoadLocal (returnValueIndex T) w3) else w3);
                  w5 = snd (LoadLocal (exceptionIndex T) w4);
                  w6 = snd (LoadLocal (callTargetStateIndex T) w5);
                  (endMethodCallInstr, w7) =
                     (if isVoid then WriteEndVoidReturnMemberRef T w6
                      else WriteEndReturnMemberRef T w6);
                  w8 = snd (StLocal (callTargetReturnIndex T) w7);
                  w9 = (if \<not> isVoid
                        then snd (StLocal (returnValueIndex T)
                               (snd (WriteCallTargetReturnGetReturnValue T
                                  (snd (LoadLocalAddress (callTargetReturnIndex T) w8)))))
                        else w8);
                  (endMethodTryLeave, w10) = CreateInstr CEE_LEAVE_S w9;
                  (endMethodCatchFirstInstr, w11) = WriteLogException T w10;
                  (endMethodCatchLeaveInstr, w12) = CreateInstr CEE_LEAVE_S w11;
                  endMethodExClause =
                    \<lparr>m_Flags = COR_ILEXCEPTION_CLAUSE_NONE,
                     m_pTryBegin = endMethodTryStartInstr,
                     m_pTryEnd = endMethodCatchFirstInstr,
                     m_pHandlerBegin = endMethodCatchFirstInstr,
                     m_pHandlerEnd = endMethodCatchLeaveInstr,
                     m_ClassToken = GetExceptionTypeRef T\<rparr>;
                  (endFinallyInstr, w13) = EndFinally w12;
                  w14 = set_m_pTarget endMethodTryLeave endFinallyInstr w13;
                  w15 = set_m_pTarget endMethodCatchLeaveInstr endFinallyInstr w14
              in Some (startExceptionCatch, rethrowInstr, endMethodExClause, endFinallyInstr, w15)))"

text \<open>
  "Changes all returns to a LEAVE.S": the loop walks the list from the first node to the
  head. The nodes already passed are \<open>visited\<close>, the node at hand is \<open>pInstr\<close>; the
  \<open>StLocal\<close> at position \<open>pInstr\<close> links its node in front of \<open>pInstr\<close>, that is, behind
  the last visited node, and the walk goes on with \<open>pInstr->m_pNext\<close>. The target is
  read from the list as it is at that moment.
\<close>

fun change_returns ::
  "bool \<Rightarrow> nat \<Rightarrow> nat \<Rightarrow> nat \<Rightarrow> ILInstr list \<Rightarrow> ILInstr list \<Rightarrow> nat \<Rightarrow> ILInstr list \<times> nat" where
  "change_returns isVoid returnValue methodReturnInstr endFinallyInstr visited [] fresh =
     (visited, fresh)"
| "change_returns isVoid returnValue methodReturnInstr endFinallyInstr visited (pInstr # rest) fresh =
     (if m_opcode pInstr = CEE_RET \<and> node pInstr \<noteq> methodReturnInstr then
        (let (visited1, fresh1) =
               (if \<not> isVoid
                then (visited @ [\<lparr>node = fresh, m_opcode = CEE_STLOC, m_Arg = returnValue,
                                  m_pTarget = None\<rparr>], Suc fresh)
                else (visited, fresh));
             target = m_pNext endFinallyInstr (visited1 @ pInstr # rest);
             pInstr1 = pInstr\<lparr>m_opcode := CEE_LEAVE_S, m_pTarget := Some target\<rparr>
         in change_returns isVoid returnValue methodReturnInstr endFinallyInstr
              (visited1 @ [pInstr1]) rest fresh1)
      else change_returns isVoid returnValue methodReturnInstr endFinallyInstr
             (visited @ [pInstr]) rest fresh)"

text \<open>
  The rewriting proper, from \<open>SetILPosition(rewriter.GetILList()->m_pNext)\<close> to
  \<open>SetEHClause\<close>. \<open>None\<close> is \<open>return S_FALSE\<close>. The clause table is copied entry by entry
  into the new array and the four new clauses are stored behind the copies.
\<close>

definition rewrite_method ::
  "CallTargetTokens \<Rightarrow> FunctionInfo \<Rightarrow> ILRewriterWrapper \<Rightarrow> ILRewriterWrapper option" where
  "rewrite_method T caller rewriter =
     (let retFuncArg = GetRet (method_signature caller);
          isVoid = (TypeFlagVoid \<in> GetTypeFlags retFuncArg);
          isStatic = (CallingConvention (method_signature caller) AND IMAGE_CEE_CS_CALLCONV_HASTHIS = 0);
          methodArguments = GetMethodArguments (method_signature caller);
          numArgs = sint (NumberOfArguments (method_signature caller));
          w0 = SetILPosition (m_pNext 0 (m_IL rewriter)) rewriter
      in case begin_method_part T caller isStatic methodArguments numArgs w0 of
           None \<Rightarrow> None
         | Some (firstInstruction, beginMethodExClause, w1) \<Rightarrow>
             (let (methodReturnInstr, w2) = append_method_return w1 in
              case end_method_part T caller isStatic isVoid methodReturnInstr w2 of
                None \<Rightarrow> None
              | Some (startExceptionCatch, rethrowInstr, endMethodExClause, endFinallyInstr, w3) \<Rightarrow>
                  (let w4 = (if \<not> isVoid then snd (LoadLocal (returnValueIndex T) w3) else w3);
                       (il, fresh) = change_returns isVoid (returnValueIndex T) methodReturnInstr
                                       endFinallyInstr [] (m_IL w4) (m_fresh w4);
                       w5 = w4\<lparr>m_IL := il, m_fresh := fresh\<rparr>;
                       exClause =
                         \<lparr>m_Flags = COR_ILEXCEPTION_CLAUSE_NONE,
                          m_pTryBegin = firstInstruction,
                          m_pTryEnd = startExceptionCatch,
                          m_pHandlerBegin = startExceptionCatch,
                          m_pHandlerEnd = rethrowInstr,
                          m_ClassToken = GetExceptionTypeRef T\<rparr>;
                       finallyClause =
                         \<lparr>m_Flags = COR_ILEXCEPTION_CLAUSE_FINALLY,
                          m_pTryBegin = firstInstruction,
                          m_pTryEnd = m_pNext rethrowInstr (m_IL w5),
                          m_pHandlerBegin = m_pNext rethrowInstr (m_IL w5),
                          m_pHandlerEnd = endFinallyInstr,
                          m_ClassToken = 0\<rparr>;
                       ehCount = length (m_pEH w5);
                       ehPointer = m_pEH w5;
                       newEHClauses = map (\<lambda>i. ehPointer ! i) [0 ..< ehCount]
                                        @ [beginMethodExClause, endMethodExClause, exClause,
                                           finallyClause]
                   in Some (w5\<lparr>m_pEH := newEHClauses\<rparr>))))"

text \<open>
  What the callback needs from outside the profiler object: the tokens of the module
  (\<open>module_metadata->GetCallTargetTokens()\<close>), and the host's answers to \<open>Import\<close> (status,
  body and clause table of the method) and to \<open>Export\<close>.
\<close>

record rewrite_host =
  tokens :: CallTargetTokens
  Import_status :: HRESULT
  method_body :: il_code
  method_clauses :: "EHClause list"
  Export_status :: HRESULT

text \<open>
  The callback ends with a status and, when \<open>Export\<close> was reached and succeeded, with the
  method body it committed. \<open>caller\<close>, \<open>method_replacement\<close> and \<open>module_metadata\<close> are
  read through pointers kept by the handlers; a null pointer there is a fault.
  \<open>GetWrapperMethodRef\<close> only resolves tokens and its result is not tested.
\<close>

datatype rewrite_outcome =
    NullPointerFault
  | Finished HRESULT "(ILInstr list \<times> EHClause list) option"

definition CallTarget_RewriterCallback ::
  "CorProfiler \<Rightarrow> rewrite_host \<Rightarrow> RejitHandlerModule \<Rightarrow> RejitHandlerModuleMethod
     \<Rightarrow> rewrite_outcome" where
  "CallTarget_RewriterCallback s H moduleHandler methodHandler =
     (case m_functionInfo methodHandler of
        None \<Rightarrow> NullPointerFault
      | Some caller \<Rightarrow>
          if managed_profiler_module_id s = 0 then Finished S_FALSE None
          else
            (case module_id_to_info_map s (managed_profiler_module_id s) of
               None \<Rightarrow> Finished S_FALSE None
             | Some instrumentation_module_metadata \<Rightarrow>
                 (case m_methodReplacement methodHandler of
                    None \<Rightarrow> NullPointerFault
                  | Some method_replacement \<Rightarrow>
                      (let wrapper = wrapper_method method_replacement;
                           (hr, wrapper_type_def) =
                              FindTypeDefByName (metadata_import instrumentation_module_metadata)
                                (ref_type_name wrapper)
                       in if FAILED hr \<or> wrapper_type_def = mdTypeDefNil then Finished S_FALSE None
                          else if \<not> probe_wrapper_methods
                                      (metadata_import instrumentation_module_metadata)
                                      wrapper_type_def expected_wrapper_methods
                          then Finished S_FALSE None
                          else
                            (case m_metadata moduleHandler of
                               None \<Rightarrow> NullPointerFault
                             | Some module_metadata \<Rightarrow>
                                 if \<not> ProfilerAssemblyIsLoadedIntoAppDomain s
                                        (app_domain_id module_metadata)
                                 then Finished S_FALSE None
                                 else if FAILED (Import_status H) then Finished S_FALSE None
                                 else
                                   (case rewrite_method (tokens H) caller
                                           (Import (method_body H) (method_clauses H)) of
                                      None \<Rightarrow> Finished S_FALSE None
                                    | Some w \<Rightarrow>
                                        if FAILED (Export_status H) then Finished S_FALSE None
                                        else Finished S_OK (Some (m_IL w, m_pEH w))))))))"

section \<open>Notions used to state and prove the properties of the rewriting\<close>

text \<open>
  The part of the instruction list in front of the wrapper's position and the part from
  the position on; a rewriter is well formed when its node addresses are distinct, not
  the head's, and below the next unused address, and so is the position; \<open>extends w0 w\<close> says that \<open>w\<close>
  came from \<open>w0\<close> by linking new nodes in front of the position (and setting branch
  targets of new nodes only).
\<close>

definition before_pos :: "ILRewriterWrapper \<Rightarrow> ILInstr list" where
  "before_pos w = takeWhile (\<lambda>x. node x \<noteq> m_ILInstr w) (m_IL w)"

definition after_pos :: "ILRewriterWrapper \<Rightarrow> ILInstr list" where
  "after_pos w = dropWhile (\<lambda>x. node x \<noteq> m_ILInstr w) (m_IL w)"

definition wf_rewriter :: "ILRewriterWrapper \<Rightarrow> bool" where
  "wf_rewriter w =
     (distinct (map node (m_IL w)) \<and> (\<forall>i \<in> set (m_IL w). 0 < node i \<and> node i < m_fresh w)
      \<and> m_ILInstr w < m_fresh w)"

definition extends :: "ILRewriterWrapper \<Rightarrow> ILRewriterWrapper \<Rightarrow> bool" where
  "extends w0 w =
     (wf_rewriter w0 \<and> wf_rewriter w \<and> m_fresh w0 \<le> m_fresh w \<and> m_ILInstr w = m_ILInstr w0
      \<and> m_pEH w = m_pEH w0 \<and> after_pos w = after_pos w0
      \<and> (\<exists>X. before_pos w = before_pos w0 @ X \<and> (\<forall>i \<in> set X. m_fresh w0 \<le> node i)))"

text \<open>The instructions that the slow path writes for argument \<open>i\<close>.\<close>

definition slow_code :: "bool \<Rightarrow> FunctionMethodArgument list \<Rightarrow> nat \<Rightarrow> (opcode \<times> nat) list" where
  "slow_code isStatic args i =
     [(CEE_DUP, 0), (CEE_LDC_I4, i), (CEE_LDARG, i + (if isStatic then 0 else 1))]
     @ (if TypeFlagBoxedType \<in> GetTypeFlags (args ! i) then [(CEE_BOX, GetTypeTok (args ! i))]
        else [])
     @ [(CEE_STELEM_REF, 0)]"

text \<open>
  What the rewriting makes of one instruction \<open>x\<close> of the list: a return becomes, for a
  non-void method, a store into the return-value local in a new node, followed by \<open>x\<close>
  itself turned into a \<open>leave.s\<close> to \<open>target\<close>; any other instruction stays as it is.
\<close>

definition return_replaced :: "bool \<Rightarrow> nat \<Rightarrow> nat \<Rightarrow> ILInstr \<Rightarrow> ILInstr list \<Rightarrow> bool" where
  "return_replaced isVoid returnValue target x ys =
     (if m_opcode x = CEE_RET
      then (\<exists>n. ys = (if isVoid then []
                       else [\<lparr>node = n, m_opcode = CEE_STLOC, m_Arg = returnValue, m_pTarget = None\<rparr>])
                     @ [x\<lparr>m_opcode := CEE_LEAVE_S, m_pTarget := Some target\<rparr>])
      else ys = [x])"

subsection \<open>A small running profiler, for evaluating the entry points\<close>

text \<open>
  Module 7 is assembly \<open>App\<close> with a class \<open>Foo\<close> and one static method
  \<open>int Foo.Bar(int, string)\<close>, token 100.
\<close>

definition demo_int_argument :: FunctionMethodArgument where
  "demo_int_argument =
     \<lparr>GetTypeFlags = {TypeFlagBoxedType}, GetTypeTokName = ''System.Int32'', GetTypeTok = 0x01000010\<rparr>"

definition demo_string_argument :: FunctionMethodArgument where
  "demo_string_argument =
     \<lparr>GetTypeFlags = {}, GetTypeTokName = ''System.String'', GetTypeTok = 0x01000011\<rparr>"

definition demo_signature :: FunctionMethodSignature where
  "demo_signature =
     \<lparr>TryParse = S_OK, CallingConvention = 0, GetRet = demo_int_argument,
      GetMethodArguments = [demo_int_argument, demo_string_argument]\<rparr>"

definition demo_function :: FunctionInfo where
  "demo_function =
     \<lparr>function_id = 100, function_name = ''Bar'',
      function_type = \<lparr>type_id = 0x02000002, type_name = ''Foo'', type_spec = mdTypeSpecNil,
                        isGeneric = False, valueType = False\<rparr>,
      method_signature = demo_signature\<rparr>"

definition demo_import :: IMetaDataImport where
  "demo_import =
     \<lparr>FindTypeDefByName = (\<lambda>n. if n = ''Foo'' then (S_OK, 0x02000002) else (E_FAIL, mdTypeDefNil)),
      EnumMethodsWithName = (\<lambda>t n. if t = 0x02000002 \<and> n = ''Bar'' then (S_OK, [100])
                                     else (S_FALSE, [])),
      GetFunctionInfo = (\<lambda>t. if t = 100 then Some demo_function else None),
      assembly_version = (1, 0, 0, 0)\<rparr>"

definition demo_target :: MethodReference where
  "demo_target =
     \<lparr>assembly_name = ''App'', ref_type_name = ''Foo'', method_name = ''Bar'',
      min_version = (1, 0, 0, 0), max_version = (1, 65535, 65535, 65535),
      signature_types = [''System.Int32'', ''System.Int32'', ''_'']\<rparr>"

definition demo_wrapper :: MethodReference where
  "demo_wrapper =
     \<lparr>assembly_name = ''OpenTelemetry.AutoInstrumentation'', ref_type_name = ''FooIntegration'',
      method_name = '''', min_version = (0, 0, 0, 0), max_version = (65535, 65535, 65535, 65535),
      signature_types = []\<rparr>"

definition demo_integration :: IntegrationMethod where
  "demo_integration =
     \<lparr>integration_name = ''Demo'',
      replacement = \<lparr>target_method = demo_target, wrapper_method = demo_wrapper\<rparr>\<rparr>"

definition scan_start :: scan_state where
  "scan_start = \<lparr>handler = \<lparr>m_modules = Map.empty, m_requests = []\<rparr>,
                  vtModules = [], vtMethodDefs = [], logged = []\<rparr>"

definition demo_metadata :: ModuleMetadata where
  "demo_metadata = \<lparr>metadata_import = demo_import, assemblyName = ''App'', app_domain_id = 1\<rparr>"

definition demo_handler :: RejitHandler where
  "demo_handler =
     \<lparr>m_modules = [7 \<mapsto> \<lparr>m_moduleId = 7, m_metadata = Some demo_metadata,
                          m_methods = [100 \<mapsto> \<lparr>m_methodDef = 100, m_functionInfo = None,
                                                 m_methodReplacement = None\<rparr>]\<rparr>],
      m_requests = []\<rparr>"

definition demo_profiler :: CorProfiler where
  "demo_profiler =
     \<lparr>is_attached = True,
      rejit_handler = Some demo_handler,
      module_id_to_info_map = [7 \<mapsto> demo_metadata],
      managed_profiler_module_id = 0,
      managed_profiler_loaded_app_domains = {1},
      managed_profiler_loaded_domain_neutral = False,
      first_jit_compilation_app_domains = {}\<rparr>"

text \<open>
  Module 9 is the instrumentation assembly: its type \<open>FooIntegration\<close> has a method
  \<open>OnMethodEnd\<close>, its type \<open>EmptyIntegration\<close> has none of the three hooks. The method
  body of \<open>Foo.Bar\<close> returns at two places.
\<close>

definition demo_instrumentation_import :: IMetaDataImport where
  "demo_instrumentation_import =
     \<lparr>FindTypeDefByName = (\<lambda>n. if n = ''FooIntegration'' then (S_OK, 5)
                                 else if n = ''EmptyIntegration'' then (S_OK, 6)
                                 else (E_FAIL, mdTypeDefNil)),
      EnumMethodsWithName = (\<lambda>t n. if t = 5 \<and> n = ''OnMethodEnd'' then (S_OK, [21])
                                     else (S_FALSE, [])),
      GetFunctionInfo = (\<lambda>_. None),
      assembly_version = (1, 0, 0, 0)\<rparr>"

definition demo_instrumentation_metadata :: ModuleMetadata where
  "demo_instrumentation_metadata =
     \<lparr>metadata_import = demo_instrumentation_import,
      assemblyName = ''OpenTelemetry.AutoInstrumentation'', app_domain_id = 1\<rparr>"

definition demo_ready :: CorProfiler where
  "demo_ready =
     demo_profiler\<lparr>managed_profiler_module_id := 9,
                    module_id_to_info_map := [7 \<mapsto> demo_metadata, 9 \<mapsto> demo_instrumentation_metadata]\<rparr>"

definition demo_moduleHandler :: RejitHandlerModule where
  "demo_moduleHandler =
     \<lparr>m_moduleId = 7, m_metadata = Some demo_metadata, m_methods = Map.empty\<rparr>"

definition demo_methodHandler :: RejitHandlerModuleMethod where
  "demo_methodHandler =
     \<lparr>m_methodDef = 100, m_functionInfo = Some demo_function,
      m_methodReplacement = Some (replacement demo_integration)\<rparr>"

definition demo_tokens :: CallTargetTokens where
  "demo_tokens =
     \<lparr>FASTPATH_COUNT = 9, callTargetStateIndex = 1, exceptionIndex = 2, callTargetReturnIndex = 3,
      returnValueIndex = 0, callTargetReturnToken = 40,
      init_first = (CEE_LDNULL, 0), init_rest = [(CEE_STLOC, 2)],
      GetObjectTypeRef = 41, GetExceptionTypeRef = 42,
      WriteBeginMethod_status = S_OK, BeginMethod_ref = 43, LogException_ref = 44,
      EndMethod_ref = 45, GetReturnValue_ref = 46\<rparr>"

definition demo_body :: il_code where
  "demo_body = [(CEE_LDARG, 0, None), (CEE_OTHER 45, 0, Some 3), (CEE_RET, 0, None),
                (CEE_LDARG, 0, None), (CEE_RET, 0, None)]"

definition demo_clause :: EHClause where
  "demo_clause = \<lparr>m_Flags = COR_ILEXCEPTION_CLAUSE_NONE, m_pTryBegin = 1, m_pTryEnd = 2,
                   m_pHandlerBegin = 4, m_pHandlerEnd = 5, m_ClassToken = 42\<rparr>"

definition demo_host :: rewrite_host where
  "demo_host = \<lparr>tokens = demo_tokens, Import_status = S_OK, method_body = demo_body,
                 method_clauses = [demo_clause], Export_status = S_OK\<rparr>"

(*DEFS*)

section \<open>Proofs: environment-variable predicates\<close>

lemma invoke_cached:
  assumes "sValue s \<noteq> - 1"
  shows "invoke P p env a s = (sValue s = 1, s)"
  using assms
  by (cases p)
     (simp_all add: DisableOptimizations_def EnableInlining_def IsNGENEnabled_def
        IsDumpILRewriteEnabled_def IsAzureAppServices_def AreTracesEnabled_def
        AreMetricsEnabled_def AreLogsEnabled_def IsNetFxAssemblyRedirectionEnabled_def
        AreInstrumentationsEnabledByDefault_def AreTracesInstrumentationsEnabledByDefault_def
        AreMetricsInstrumentationsEnabledByDefault_def AreLogsInstrumentationsEnabledByDefault_def
        CheckIfTrue_def ToBooleanWithDefault_def)

lemma invoke_first:
  assumes "sValue s = - 1" and "invoke P p env a s = (r, s')"
  shows "(sValue s' = 0 \<or> sValue s' = 1) \<and> r = (sValue s' = 1) \<and> env_reads s' = env_reads s + 1"
  using assms
  by (cases p)
     (auto simp add: DisableOptimizations_def EnableInlining_def IsNGENEnabled_def
        IsDumpILRewriteEnabled_def IsAzureAppServices_def AreTracesEnabled_def
        AreMetricsEnabled_def AreLogsEnabled_def IsNetFxAssemblyRedirectionEnabled_def
        AreInstrumentationsEnabledByDefault_def AreTracesInstrumentationsEnabledByDefault_def
        AreMetricsInstrumentationsEnabledByDefault_def AreLogsInstrumentationsEnabledByDefault_def
        CheckIfTrue_def ToBooleanWithDefault_def Let_def split: if_splits)

lemma run_calls_inv:
  assumes "\<forall>q. cache_ok (st q)" and "run_calls P cs st = (rs, st')"
  shows "(\<forall>q. cache_ok (st' q))
       \<and> (\<forall>q. sValue (st q) \<noteq> - 1 \<longrightarrow> st' q = st q)
       \<and> (\<forall>q r. (q, r) \<in> set rs \<longrightarrow> r = (sValue (st' q) = 1))"
  using assms
proof (induction cs arbitrary: st rs st')
  case Nil
  then show ?case by simp
next
  case (Cons c cs)
  obtain p env a where c: "c = (p, env, a)" by (cases c) auto
  obtain r s' where inv: "invoke P p env a (st p) = (r, s')"
    by (cases "invoke P p env a (st p)") auto
  obtain rs' st1 where rec: "run_calls P cs (st(p := s')) = (rs', st1)"
    by (cases "run_calls P cs (st(p := s'))") auto
  from Cons.prems(2) c inv rec have rs: "rs = (p, r) # rs'" and st': "st' = st1" by simp_all
  have s'_ok: "cache_ok s' \<and> sValue s' \<noteq> - 1 \<and> r = (sValue s' = 1)
                \<and> (sValue (st p) \<noteq> - 1 \<longrightarrow> s' = st p)"
  proof (cases "sValue (st p) = - 1")
    case True
    from invoke_first[OF True inv] Cons.prems(1)[rule_format, of p] True
    show ?thesis by (auto simp: cache_ok_def)
  next
    case False
    from invoke_cached[OF False, of P p env a] inv Cons.prems(1)[rule_format, of p] False
    show ?thesis by (auto simp: cache_ok_def)
  qed
  have ok1: "\<forall>q. cache_ok ((st(p := s')) q)" using Cons.prems(1) s'_ok by simp
  from Cons.IH[OF ok1 rec]
  have ih1: "\<forall>q. cache_ok (st1 q)"
    and ih2: "\<forall>q. sValue ((st(p := s')) q) \<noteq> - 1 \<longrightarrow> st1 q = (st(p := s')) q"
    and ih3: "\<forall>q r. (q, r) \<in> set rs' \<longrightarrow> r = (sValue (st1 q) = 1)" by blast+
  from ih2 s'_ok have p1: "st1 p = s'" by simp
  show ?case
    using ih1 ih2 ih3 p1 s'_ok unfolding rs st' by auto
qed

lemma statics_init_ok: "cache_ok (statics_init q)"
  by (simp add: statics_init_def static_init_def cache_ok_def)

text \<open>
  Claim C10. Start the process with every static at \<open>-1\<close> and run any sequence of calls,
  the environment being whatever it is at each call. Then any two calls to the same
  predicate have returned the same boolean (also for the predicates that take an
  argument, whose later arguments are ignored), and no predicate has evaluated the read
  of its environment variable more than once.
\<close>

theorem env_predicate_cached:
  assumes "run_calls P cs statics_init = (rs, st')"
    and "(p, r1) \<in> set rs" and "(p, r2) \<in> set rs"
  shows "r1 = r2 \<and> (\<forall>q. env_reads (st' q) \<le> 1)"
proof -
  from run_calls_inv[OF _ assms(1)] statics_init_ok
  have a: "\<forall>q. cache_ok (st' q)"
    and b: "\<forall>q r. (q, r) \<in> set rs \<longrightarrow> r = (sValue (st' q) = 1)"
    by blast+
  from b assms(2,3) have "r1 = r2" by blast
  moreover have "env_reads (st' q) \<le> 1" for q using a[rule_format, of q]
    by (auto simp: cache_ok_def split: if_splits)
  ultimately show ?thesis by blast
qed

text \<open>
  The theorem at a run where the variable reads \<open>false\<close> at the first call of
  \<open>AreTracesEnabled\<close> and \<open>true\<close> at the second: both calls answer \<open>False\<close>.
\<close>

theorem env_predicate_cached_witness:
  "fst (run_calls \<lparr>TrueCondition = (\<lambda>s. s = ''true''), FalseCondition = (\<lambda>s. s = ''false'')\<rparr>
         [(P_AreTracesEnabled, (\<lambda>_. ''false''), False),
          (P_EnableInlining, (\<lambda>_. ''''), False),
          (P_AreTracesEnabled, (\<lambda>_. ''true''), False)] statics_init)
     = [(P_AreTracesEnabled, False), (P_EnableInlining, True), (P_AreTracesEnabled, False)]
   \<and> (\<forall>q. env_reads (snd (run_calls
         \<lparr>TrueCondition = (\<lambda>s. s = ''true''), FalseCondition = (\<lambda>s. s = ''false'')\<rparr>
         [(P_AreTracesEnabled, (\<lambda>_. ''false''), False),
          (P_EnableInlining, (\<lambda>_. ''''), False),
          (P_AreTracesEnabled, (\<lambda>_. ''true''), False)] statics_init) q) \<le> 1)"
proof -
  let ?P = "\<lparr>TrueCondition = (\<lambda>s. s = ''true''), FalseCondition = (\<lambda>s. s = ''false'')\<rparr>"
  let ?cs = "[(P_AreTracesEnabled, (\<lambda>_. ''false''), False),
          (P_EnableInlining, (\<lambda>_. ''''), False),
          (P_AreTracesEnabled, (\<lambda>_. ''true''), False)]"
  have run: "fst (run_calls ?P ?cs statics_init)
     = [(P_AreTracesEnabled, False), (P_EnableInlining, True), (P_AreTracesEnabled, False)]"
    by (simp add: AreTracesEnabled_def EnableInlining_def ToBooleanWithDefault_def
          GetEnvironmentValue_def statics_init_def static_init_def)
  have m: "(P_AreTracesEnabled, False) \<in> set (fst (run_calls ?P ?cs statics_init))"
    unfolding run by simp
  from env_predicate_cached[OF prod.collapse[symmetric] m m] run
  show ?thesis by blast
qed

section \<open>Proofs: host entry points\<close>

text \<open>
  Claim C7. A grant of recompilation parameters ends in the call of the rejit handler only
  when the module's record is in the cache at the lookup; when the record is absent the
  entry point returns a status and calls nothing. A module-unload notification that finds
  the record (profiler attached) removes it from the cache and removes the module's state
  from the rejit handler, after which a grant for that module returns \<open>S_FALSE\<close>.
\<close>

theorem grant_needs_module_record:
  "(fst (GetReJITParameters s m meth waited) = NotifyReJITParameters m' meth' md \<longrightarrow>
        is_attached s \<and> module_id_to_info_map (waited s) m = Some md \<and> m' = m \<and> meth' = meth)
   \<and> (module_id_to_info_map (waited s) m = None \<longrightarrow>
        fst (GetReJITParameters s m meth waited)
          = Returned (if is_attached s then S_FALSE else S_OK))
   \<and> (is_attached s \<and> is_attached (waited s) \<and> module_id_to_info_map (waited s) m = Some md \<longrightarrow>
        fst (ModuleUnloadStarted s m waited) = S_OK
        \<and> module_id_to_info_map (snd (ModuleUnloadStarted s m waited)) m = None
        \<and> (\<forall>h. rejit_handler (snd (ModuleUnloadStarted s m waited)) = Some h
               \<longrightarrow> TryGetModule h m = None)
        \<and> fst (GetReJITParameters (snd (ModuleUnloadStarted s m waited)) m meth id)
            = Returned S_FALSE)"
  by (auto simp: GetReJITParameters_def ModuleUnloadStarted_def Let_def RemoveModule_def
        TryGetModule_def split: option.splits if_splits)

theorem grant_needs_module_record_witness:
  "fst (GetReJITParameters demo_profiler 7 100 id) = NotifyReJITParameters 7 100 demo_metadata
   \<and> module_id_to_info_map demo_profiler 7 = Some demo_metadata
   \<and> module_id_to_info_map demo_profiler 8 = None
   \<and> fst (GetReJITParameters demo_profiler 8 100 id) = Returned S_FALSE
   \<and> module_id_to_info_map (snd (ModuleUnloadStarted demo_profiler 7 id)) 7 = None
   \<and> rejit_handler (snd (ModuleUnloadStarted demo_profiler 7 id))
        = Some (demo_handler\<lparr>m_modules := Map.empty\<rparr>)
   \<and> fst (GetReJITParameters (snd (ModuleUnloadStarted demo_profiler 7 id)) 7 100 id)
        = Returned S_FALSE"
proof -
  have a: "is_attached demo_profiler" "module_id_to_info_map (id demo_profiler) 7 = Some demo_metadata"
    "module_id_to_info_map (id demo_profiler) 8 = None" "is_attached (id demo_profiler)"
    by (simp_all add: demo_profiler_def)
  have b: "fst (GetReJITParameters demo_profiler 7 100 id) = NotifyReJITParameters 7 100 demo_metadata"
    by (simp add: GetReJITParameters_def demo_profiler_def)
  have c: "rejit_handler (snd (ModuleUnloadStarted demo_profiler 7 id))
        = Some (demo_handler\<lparr>m_modules := Map.empty\<rparr>)"
    by (simp add: ModuleUnloadStarted_def demo_profiler_def demo_metadata_def RemoveModule_def
          demo_handler_def)
  from grant_needs_module_record[of demo_profiler 7 100 id 7 100 demo_metadata]
       grant_needs_module_record[of demo_profiler 8 100 id 8 100 demo_metadata] a b c
  show ?thesis by simp
qed

text \<open>
  Claim C8. With the profiler attached (and its rejit handler in place, as it is from
  \<open>Initialize\<close> to \<open>Shutdown\<close>), the inlining query answers "do not inline" exactly when
  the callee's function information resolves to a (module, method token) pair that the
  rejit handler has registered; in every other case, a failed resolution included, it
  answers "inline". The status is always \<open>S_OK\<close>.
\<close>

theorem JITInlining_registered:
  assumes "is_attached s" and "rejit_handler s = Some h"
  shows "fst (JITInlining gfi s callerId calleeId pf) = S_OK
       \<and> (snd (JITInlining gfi s callerId calleeId pf) = False \<longleftrightarrow>
            (\<exists>m tok hm. gfi calleeId = Some (m, tok) \<and> TryGetModule h m = Some hm
                 \<and> ContainsMethod hm tok))"
  using assms
  by (auto simp: JITInlining_def split: option.splits)

theorem JITInlining_registered_witness:
  "is_attached demo_profiler \<and> rejit_handler demo_profiler = Some demo_handler
   \<and> JITInlining (\<lambda>f. if f = 55 then Some (7, 100) else None) demo_profiler 54 55 True
       = (S_OK, False)
   \<and> JITInlining (\<lambda>f. if f = 55 then Some (7, 100) else None) demo_profiler 54 56 False
       = (S_OK, True)"
proof -
  have a: "is_attached demo_profiler" "rejit_handler demo_profiler = Some demo_handler"
    by (simp_all add: demo_profiler_def)
  have b: "JITInlining (\<lambda>f. if f = 55 then Some (7, 100) else None) demo_profiler 54 55 True
       = (S_OK, False)"
    "JITInlining (\<lambda>f. if f = 55 then Some (7, 100) else None) demo_profiler 54 56 False
       = (S_OK, True)"
    by (simp_all add: JITInlining_def demo_profiler_def demo_handler_def TryGetModule_def
          ContainsMethod_def)
  from JITInlining_registered[OF a, of "\<lambda>f. if f = 55 then Some (7, 100) else None" 54 55 True] a b
  show ?thesis by simp
qed

text \<open>
  The entry points that test \<open>is_attached\<close> again once they hold the lock do nothing when
  the flag was cleared while they waited.
\<close>

lemma recheck_after_lock:
  assumes "\<not> is_attached (waited s)"
  shows "ModuleUnloadStarted s m waited = (S_OK, if is_attached s then waited s else s)"
    and "ProfilerDetachSucceeded s waited = (S_OK, if is_attached s then waited s else s)"
    and "AppDomainShutdownFinished s d waited = (S_OK, if is_attached s then waited s else s)"
  using assms
  by (simp_all add: ModuleUnloadStarted_def ProfilerDetachSucceeded_def
        AppDomainShutdownFinished_def Let_def)

text \<open>
  Claim C9 (the code departs from it). \<open>GetReJITParameters\<close> does not test the flag again
  after taking the lock. When the detach notification runs while it waits for the lock,
  it still reads the module cache and calls the rejit handler; when \<open>Shutdown\<close> runs
  instead, the call goes through the null \<open>rejit_handler\<close>. \<open>ModuleUnloadStarted\<close>, which
  has the second test, returns \<open>S_OK\<close> and leaves the state as the detach left it.
\<close>

theorem GetReJITParameters_misses_recheck:
  "GetReJITParameters demo_profiler 7 100 (\<lambda>s. snd (ProfilerDetachSucceeded s id))
     = (NotifyReJITParameters 7 100 demo_metadata, demo_profiler\<lparr>is_attached := False\<rparr>)
   \<and> fst (GetReJITParameters demo_profiler 7 100 (\<lambda>s. snd (Shutdown s))) = NullHandlerCall
   \<and> fst (GetReJITParameters demo_profiler 8 100 (\<lambda>s. snd (ProfilerDetachSucceeded s id)))
       = Returned S_FALSE
   \<and> ModuleUnloadStarted demo_profiler 7 (\<lambda>s. snd (ProfilerDetachSucceeded s id))
       = (S_OK, demo_profiler\<lparr>is_attached := False\<rparr>)"
  by (simp add: GetReJITParameters_def ModuleUnloadStarted_def ProfilerDetachSucceeded_def
        Shutdown_def demo_profiler_def Let_def)

section \<open>Proofs: the method-matching scan\<close>

lemma size_minus_one:
  assumes "len < 2 ^ 64"
  shows "(int (unat (n :: 32 word)) = (int len - 1) mod 2 ^ 64) \<longleftrightarrow> unat n + 1 = len"
proof (cases len)
  case 0
  have "unat n < 2 ^ 32" using unsigned_less[of n] by simp
  then have "int (unat n) < 2 ^ 32" by (metis of_nat_less_iff of_nat_numeral of_nat_power)
  then show ?thesis using 0 by simp
next
  case (Suc k)
  then have "int k < 2 ^ 64"
    using assms by (metis Suc_lessD of_nat_less_iff of_nat_numeral of_nat_power)
  then have m: "(int len - 1) mod 2 ^ 64 = int k" using Suc by simp
  have e: "(int (unat n) = int k) = (unat n = k)" by (rule of_nat_eq_iff)
  have "(unat n = k) = (unat n + 1 = len)" using Suc by auto
  then show ?thesis unfolding m e .
qed

lemma compare_arguments_result:
  "fst (compare_arguments args sigs is)
     = (\<exists>i \<in> set is. GetTypeTokName (args ! i) \<noteq> sigs ! (i + 1) \<and> sigs ! (i + 1) \<noteq> ''_'')"
  by (induction "is") (auto simp: Let_def split: prod.splits)

lemma compare_arguments_debug:
  "e \<in> set (snd (compare_arguments args sigs is)) \<Longrightarrow> fst e = Debug"
  by (induction "is" arbitrary: e) (auto simp: Let_def split: prod.splits if_splits)

lemma descriptor_matches_alt:
  assumes "unat (NumberOfArguments sig) + 1 = length sigs"
  shows "descriptor_matches sig sigs
     = (\<not> fst (compare_arguments (GetMethodArguments sig) sigs [0 ..< unat (NumberOfArguments sig)]))"
  using assms by (auto simp: descriptor_matches_def compare_arguments_result)

text \<open>
  Claim C5, as the code has it. For an enumerated method whose function information is
  valid and whose signature parses, the scan registers the method (appends it to the
  batch and enters it in the rejit handler) if and only if its argument count is the
  number of entries of the descriptor's \<open>signature_types\<close> minus one, the leading entry
  being skipped for static and instance methods alike, and every argument's resolved
  type name equals the entry one position further or that entry is \<open>_\<close>. Otherwise the
  candidate is skipped: the handler and the batch are unchanged and only debug-level lines
  are logged. (\<open>scan_methods\<close> then goes on with the next candidate.)
\<close>

theorem scan_method_registers:
  assumes "GetFunctionInfo (metadata_import md) methodDef = Some fi"
    and "\<not> FAILED (TryParse (method_signature fi))"
    and "sigs = signature_types (target_method (replacement integration))"
    and "length sigs < 2 ^ 64"
    and "st' = scan_method m md integration methodDef st"
  shows "(vtMethodDefs st' \<noteq> vtMethodDefs st \<longleftrightarrow> descriptor_matches (method_signature fi) sigs)
    \<and> (descriptor_matches (method_signature fi) sigs \<longrightarrow>
          vtMethodDefs st' = vtMethodDefs st @ [methodDef] \<and> vtModules st' = vtModules st @ [m]
          \<and> (\<exists>hm. TryGetModule (handler st') m = Some hm \<and> ContainsMethod hm methodDef))
    \<and> (\<not> descriptor_matches (method_signature fi) sigs \<longrightarrow>
          handler st' = handler st \<and> vtModules st' = vtModules st
          \<and> (\<exists>lines. logged st' = logged st @ lines \<and> lines \<noteq> []
                \<and> (\<forall>e \<in> set lines. fst e = Debug)))"
proof (cases "unat (NumberOfArguments (method_signature fi)) + 1 = length sigs")
  case False
  then have nm: "\<not> descriptor_matches (method_signature fi) sigs"
    by (simp add: descriptor_matches_def)
  from False size_minus_one[OF assms(4), of "NumberOfArguments (method_signature fi)"]
  have ne: "int (unat (NumberOfArguments (method_signature fi)))
              \<noteq> (int (length sigs) - 1) mod 2 ^ 64"
    by simp
  have "st' = st\<lparr>logged := logged st
           @ [(Debug, Wrong_number_of_arguments (NumberOfArguments (method_signature fi)))]\<rparr>"
    using assms(1,2) ne unfolding assms(5) scan_method_def assms(3) by (simp add: Let_def)
  then show ?thesis using nm by simp
next
  case True
  from True size_minus_one[OF assms(4), of "NumberOfArguments (method_signature fi)"]
  have eq: "int (unat (NumberOfArguments (method_signature fi)))
              = (int (length sigs) - 1) mod 2 ^ 64"
    by simp
  obtain mm lines where cmp: "compare_arguments (GetMethodArguments (method_signature fi)) sigs
      [0 ..< unat (NumberOfArguments (method_signature fi))] = (mm, lines)"
    by (cases "compare_arguments (GetMethodArguments (method_signature fi)) sigs
      [0 ..< unat (NumberOfArguments (method_signature fi))]") auto
  have dm: "descriptor_matches (method_signature fi) sigs = (\<not> mm)"
    using descriptor_matches_alt[OF True] cmp by simp
  have dbg: "\<forall>e \<in> set lines. fst e = Debug"
    using compare_arguments_debug[of _ "GetMethodArguments (method_signature fi)" sigs
        "[0 ..< unat (NumberOfArguments (method_signature fi))]"] cmp by simp
  show ?thesis
  proof (cases mm)
    case True
    have "st' = st\<lparr>logged := logged st @ (Debug, Comparing_signature) # lines
                                         @ [(Debug, Wrong_type_of_arguments)]\<rparr>"
      using assms(1,2) eq cmp True unfolding assms(5) scan_method_def
      by (simp add: Let_def assms(3)[symmetric])
    then show ?thesis using dm True dbg by auto
  next
    case False
    have "vtMethodDefs st' = vtMethodDefs st @ [methodDef] \<and> vtModules st' = vtModules st @ [m]
          \<and> (\<exists>hm. TryGetModule (handler st') m = Some hm \<and> ContainsMethod hm methodDef)"
      using assms(1,2) eq cmp False unfolding assms(5) scan_method_def
      by (simp add: Let_def assms(3)[symmetric] TryGetModule_def ContainsMethod_def)
    then show ?thesis using dm False by auto
  qed
qed

lemma demo_number_of_arguments: "unat (NumberOfArguments demo_signature) = 2"
  by (simp add: NumberOfArguments_def demo_signature_def)

lemma demo_descriptor_matches: "descriptor_matches demo_signature (signature_types demo_target)"
proof -
  have "GetTypeTokName (GetMethodArguments demo_signature ! i) = signature_types demo_target ! (i + 1)
        \<or> signature_types demo_target ! (i + 1) = ''_''" if "i < 2" for i
  proof -
    from that have "i = 0 \<or> i = 1" by auto
    then show ?thesis
      by (auto simp: demo_target_def demo_signature_def demo_int_argument_def
            demo_string_argument_def)
  qed
  moreover have "length (signature_types demo_target) = 3" by (simp add: demo_target_def)
  ultimately show ?thesis
    unfolding descriptor_matches_def demo_number_of_arguments by simp
qed

text \<open>
  The static method \<open>Foo.Bar(int, string)\<close> against the three-entry descriptor
  \<open>[System.Int32, System.Int32, _]\<close>: it is registered.
\<close>

theorem scan_method_registers_witness:
  "GetFunctionInfo (metadata_import demo_metadata) 100 = Some demo_function
   \<and> \<not> FAILED (TryParse (method_signature demo_function))
   \<and> length (signature_types (target_method (replacement demo_integration))) < 2 ^ 64
   \<and> descriptor_matches demo_signature (signature_types demo_target)
   \<and> vtMethodDefs (scan_method 7 demo_metadata demo_integration 100 scan_start) = [100]"
proof -
  have a: "GetFunctionInfo (metadata_import demo_metadata) 100 = Some demo_function"
    by (simp add: demo_metadata_def demo_import_def)
  have b: "\<not> FAILED (TryParse (method_signature demo_function))"
    by (simp add: demo_function_def demo_signature_def FAILED_def S_OK_def)
  have c: "signature_types demo_target
             = signature_types (target_method (replacement demo_integration))"
    by (simp add: demo_integration_def)
  have d: "length (signature_types demo_target) < 2 ^ 64"
    by (simp add: demo_target_def)
  have e: "method_signature demo_function = demo_signature"
    by (simp add: demo_function_def)
  from scan_method_registers[where m = 7 and st = scan_start, OF a b c d refl]
       demo_descriptor_matches a b c d e
  show ?thesis by (simp add: scan_start_def)
qed

text \<open>
  Claim C5 as written counts an implicit receiver on instance methods only. The method
  above is static and declares two arguments; the descriptor has three entries; under the
  written rule the counts differ (2 against 3), yet the scan registers the method.
\<close>

theorem scan_receiver_counterexample:
  "vtMethodDefs (scan_method 7 demo_metadata demo_integration 100 scan_start) = [100]
   \<and> CallingConvention demo_signature AND IMAGE_CEE_CS_CALLCONV_HASTHIS = 0
   \<and> \<not> spec_argument_count_matches demo_signature
          (signature_types (target_method (replacement demo_integration)))"
  by (simp add: scan_method_def demo_metadata_def demo_import_def demo_function_def
        demo_signature_def FAILED_def S_OK_def NumberOfArguments_def demo_integration_def
        demo_target_def upt_rec Let_def demo_int_argument_def demo_string_argument_def
        scan_start_def spec_argument_count_matches_def IMAGE_CEE_CS_CALLCONV_HASTHIS_def)

section \<open>Proofs: the instruction list editor\<close>

lemma InsertBefore_split:
  "InsertBefore p i il = takeWhile (\<lambda>x. node x \<noteq> p) il @ i # dropWhile (\<lambda>x. node x \<noteq> p) il"
  by (induction il) auto

lemma pos_split: "m_IL w = before_pos w @ after_pos w"
  by (simp add: before_pos_def after_pos_def)

lemma fst_emit [simp]: "fst (emit opc arg w) = m_fresh w"
  by (simp add: emit_def NewILInstr_def Let_def)

lemma emit_fields [simp]:
  "m_fresh (snd (emit opc arg w)) = Suc (m_fresh w)"
  "m_ILInstr (snd (emit opc arg w)) = m_ILInstr w"
  "m_pEH (snd (emit opc arg w)) = m_pEH w"
  by (simp_all add: emit_def NewILInstr_def Let_def)

lemma emit_IL:
  "m_IL (snd (emit opc arg w))
     = before_pos w @ \<lparr>node = m_fresh w, m_opcode = opc, m_Arg = arg, m_pTarget = None\<rparr> # after_pos w"
  by (simp add: emit_def NewILInstr_def Let_def InsertBefore_split before_pos_def after_pos_def)

lemma after_pos_hd: "after_pos w = [] \<or> node (hd (after_pos w)) = m_ILInstr w"
  unfolding after_pos_def
  by (metis (mono_tags, lifting) hd_dropWhile)

lemma before_pos_nodes: "i \<in> set (before_pos w) \<Longrightarrow> node i \<noteq> m_ILInstr w"
  unfolding before_pos_def by (auto dest: set_takeWhileD)

lemma split_unique:
  assumes "\<forall>i \<in> set B. node i \<noteq> p" and "A = [] \<or> node (hd A) = p"
  shows "takeWhile (\<lambda>x. node x \<noteq> p) (B @ A) = B" and "dropWhile (\<lambda>x. node x \<noteq> p) (B @ A) = A"
proof -
  have a: "takeWhile (\<lambda>x. node x \<noteq> p) A = []" using assms(2) by (cases A) auto
  have b: "dropWhile (\<lambda>x. node x \<noteq> p) A = A" using assms(2) by (cases A) auto
  show "takeWhile (\<lambda>x. node x \<noteq> p) (B @ A) = B" using assms(1) a by (simp add: takeWhile_append2)
  show "dropWhile (\<lambda>x. node x \<noteq> p) (B @ A) = A" using assms(1) b by (simp add: dropWhile_append2)
qed

lemma emit_pos:
  assumes "m_ILInstr w < m_fresh w"
  shows "before_pos (snd (emit opc arg w))
           = before_pos w @ [\<lparr>node = m_fresh w, m_opcode = opc, m_Arg = arg, m_pTarget = None\<rparr>]"
    and "after_pos (snd (emit opc arg w)) = after_pos w"
proof -
  let ?n = "\<lparr>node = m_fresh w, m_opcode = opc, m_Arg = arg, m_pTarget = None\<rparr>"
  have il: "m_IL (snd (emit opc arg w)) = (before_pos w @ [?n]) @ after_pos w"
    by (simp add: emit_IL)
  have B: "\<forall>i \<in> set (before_pos w @ [?n]). node i \<noteq> m_ILInstr w"
    using assms before_pos_nodes by auto
  show "before_pos (snd (emit opc arg w)) = before_pos w @ [?n]"
    unfolding before_pos_def[of "snd (emit opc arg w)"] il emit_fields
    by (rule split_unique(1)[OF B after_pos_hd])
  show "after_pos (snd (emit opc arg w)) = after_pos w"
    unfolding after_pos_def[of "snd (emit opc arg w)"] il emit_fields
    by (rule split_unique(2)[OF B after_pos_hd])
qed

lemma wf_emit:
  assumes "wf_rewriter w"
  shows "wf_rewriter (snd (emit opc arg w))"
proof -
  have "set (m_IL w) = set (before_pos w) \<union> set (after_pos w)"
    by (metis pos_split set_append)
  moreover have "distinct (map node (before_pos w @ after_pos w))"
    using assms unfolding wf_rewriter_def by (metis pos_split)
  ultimately show ?thesis
    using assms unfolding wf_rewriter_def emit_IL emit_fields
    by (auto simp: less_Suc_eq)
qed

lemma extends_refl: "wf_rewriter w \<Longrightarrow> extends w w"
  by (simp add: extends_def)

lemma extends_emit:
  assumes "extends w0 w"
  shows "extends w0 (snd (emit opc arg w))"
proof -
  from assms have wf: "wf_rewriter w" and pos: "m_ILInstr w < m_fresh w"
    by (auto simp: extends_def wf_rewriter_def)
  from assms obtain X where X: "before_pos w = before_pos w0 @ X" "\<forall>i \<in> set X. m_fresh w0 \<le> node i"
    by (auto simp: extends_def)
  have "before_pos (snd (emit opc arg w))
          = before_pos w0 @ (X @ [\<lparr>node = m_fresh w, m_opcode = opc, m_Arg = arg, m_pTarget = None\<rparr>])"
    using emit_pos(1)[OF pos] X by simp
  moreover have "\<forall>i \<in> set (X @ [\<lparr>node = m_fresh w, m_opcode = opc, m_Arg = arg, m_pTarget = None\<rparr>]).
                    m_fresh w0 \<le> node i"
    using X assms by (auto simp: extends_def)
  ultimately show ?thesis
    using assms wf_emit[OF wf] emit_pos(2)[OF pos]
    unfolding extends_def by (auto simp del: append_assoc)
qed

lemma extends_trans_fields:
  assumes "extends w0 w"
  shows "m_fresh w0 \<le> m_fresh w" "m_ILInstr w = m_ILInstr w0" "m_pEH w = m_pEH w0"
    "wf_rewriter w" "wf_rewriter w0"
  using assms by (auto simp: extends_def)

lemma extends_emit_all: "extends w0 w \<Longrightarrow> extends w0 (emit_all code w)"
  by (induction code arbitrary: w) (auto simp: extends_emit)

lemma m_fresh_emit_all [simp]: "m_fresh (emit_all code w) = m_fresh w + length code"
  by (induction code arbitrary: w) auto


lemma set_target_fields [simp]:
  "m_fresh (set_m_pTarget p t w) = m_fresh w"
  "m_ILInstr (set_m_pTarget p t w) = m_ILInstr w"
  "m_pEH (set_m_pTarget p t w) = m_pEH w"
  by (simp_all add: set_m_pTarget_def)

lemma set_target_pos:
  "before_pos (set_m_pTarget p t w)
     = map (\<lambda>i. if node i = p then i\<lparr>m_pTarget := Some t\<rparr> else i) (before_pos w)"
  "after_pos (set_m_pTarget p t w)
     = map (\<lambda>i. if node i = p then i\<lparr>m_pTarget := Some t\<rparr> else i) (after_pos w)"
  by (simp_all add: set_m_pTarget_def before_pos_def after_pos_def takeWhile_map dropWhile_map
        comp_def if_distrib cong: if_cong)

lemma map_node_set_target:
  "map node (map (\<lambda>i. if node i = p then i\<lparr>m_pTarget := Some t\<rparr> else i) xs) = map node xs"
  by (induction xs) auto

lemma wf_set_target: "wf_rewriter w \<Longrightarrow> wf_rewriter (set_m_pTarget p t w)"
  using map_node_set_target[of p t "m_IL w"]
  unfolding wf_rewriter_def set_target_fields
  by (auto simp: set_m_pTarget_def simp del: map_map)

lemma map_upd_id:
  "\<forall>i \<in> set xs. node i \<noteq> p \<Longrightarrow>
     map (\<lambda>i. if node i = p then i\<lparr>m_pTarget := Some t\<rparr> else i) xs = xs"
  by (induction xs) auto

lemma extends_set_target:
  assumes "extends w0 w" and "m_fresh w0 \<le> p"
  shows "extends w0 (set_m_pTarget p t w)"
proof -
  let ?u = "\<lambda>i. if node i = p then i\<lparr>m_pTarget := Some t\<rparr> else i"
  from assms obtain X where X: "before_pos w = before_pos w0 @ X" "\<forall>i \<in> set X. m_fresh w0 \<le> node i"
    by (auto simp: extends_def)
  have wf0: "wf_rewriter w0" using assms by (simp add: extends_def)
  have "\<forall>i \<in> set (m_IL w0). node i \<noteq> p" using wf0 assms(2) by (auto simp: wf_rewriter_def)
  then have b0: "\<forall>i \<in> set (before_pos w0). node i \<noteq> p" and a0: "\<forall>i \<in> set (after_pos w0). node i \<noteq> p"
    by (auto simp: pos_split)
  have "before_pos (set_m_pTarget p t w) = before_pos w0 @ map ?u X"
    unfolding set_target_pos X by (simp add: map_upd_id[OF b0])
  moreover have "\<forall>i \<in> set (map ?u X). m_fresh w0 \<le> node i" using X(2) by auto
  moreover have "after_pos (set_m_pTarget p t w) = after_pos w0"
    unfolding set_target_pos using assms(1) map_upd_id[OF a0] by (simp add: extends_def)
  ultimately show ?thesis
    using assms(1) wf_set_target[of w p t] unfolding extends_def by auto
qed

lemma emit_eqD: "emit opc arg w = (n, w') \<Longrightarrow> n = m_fresh w \<and> w' = snd (emit opc arg w)"
  by (metis fst_conv snd_conv fst_emit)

lemma extends_load_instance:
  assumes "load_instance caller isStatic w = Some (n, w')" and "extends w0 w"
  shows "extends w0 w'" and "n = m_fresh w" and "m_fresh w < m_fresh w'"
  using assms
  by (auto simp: load_instance_def LoadNull_def LoadArgument_def LoadObj_def Let_def
        split_beta extends_emit split: if_splits dest!: emit_eqD)

lemma load_arguments_fast_eq:
  "load_arguments_fast isStatic args is w =
     (if \<exists>i \<in> set is. TypeFlagByRef \<in> GetTypeFlags (args ! i) then None
      else Some (emit_all (map (\<lambda>i. (CEE_LDARG, i + (if isStatic then 0 else 1))) is) w))"
  by (induction "is" arbitrary: w) (auto simp: Let_def LoadArgument_def)

lemma emit_all_append: "emit_all (xs @ ys) w = emit_all ys (emit_all xs w)"
  by (induction xs arbitrary: w) auto

lemma load_arguments_slow_eq:
  "load_arguments_slow isStatic args is w =
     (if \<exists>i \<in> set is. TypeFlagByRef \<in> GetTypeFlags (args ! i)
            \<or> (TypeFlagBoxedType \<in> GetTypeFlags (args ! i) \<and> GetTypeTok (args ! i) = mdTokenNil)
      then None
      else Some (emit_all (concat (map (slow_code isStatic args) is)) w))"
  by (induction "is" arbitrary: w)
     (auto simp: Let_def LoadArgument_def BeginLoadValueIntoArray_def EndLoadValueIntoArray_def
        Box_def slow_code_def emit_all_append)

lemma CreateArray_eq:
  "CreateArray type_ref count w = emit_all [(CEE_LDC_I4, count), (CEE_NEWARR, type_ref)] w"
  by (simp add: CreateArray_def)

lemma extends_load_arguments:
  assumes "load_arguments T isStatic args numArgs w = Some w'" and "extends w0 w"
  shows "extends w0 w'"
  using assms
  by (auto simp: load_arguments_def load_arguments_fast_eq load_arguments_slow_eq CreateArray_def
        extends_emit_all extends_emit split: if_splits)

lemmas emitters = LoadNull_def LoadArgument_def LoadObj_def LoadLocal_def LoadLocalAddress_def
  StLocal_def Box_def CallMember_def CreateInstr_def Rethrow_def EndFinally_def
  WriteLogException_def WriteEndVoidReturnMemberRef_def WriteEndReturnMemberRef_def
  WriteCallTargetReturnGetReturnValue_def

lemma extends_begin_method_part:
  assumes "begin_method_part T caller isStatic args numArgs w0 = Some (firstInstruction, cl, w)"
    and "wf_rewriter w0"
  shows "extends w0 w" and "firstInstruction = m_fresh w0"
    and "m_Flags cl = COR_ILEXCEPTION_CLAUSE_NONE \<and> m_ClassToken cl = GetExceptionTypeRef T
         \<and> m_pTryBegin cl = firstInstruction \<and> m_pTryEnd cl = m_pHandlerBegin cl
         \<and> m_pHandlerBegin cl < m_pHandlerEnd cl \<and> firstInstruction < m_pHandlerBegin cl
         \<and> m_pHandlerEnd cl < m_fresh w"
proof -
  obtain w1 where w1: "ModifyLocalSigAndInitialize T w0 = (m_fresh w0, w1)" and e1: "extends w0 w1"
    and f1: "m_fresh w0 < m_fresh w1"
    using extends_refl[OF assms(2)]
    by (auto simp: ModifyLocalSigAndInitialize_def split_beta extends_emit extends_emit_all)
  from assms(1) w1 obtain n2 w2 where w2: "load_instance caller isStatic w1 = Some (n2, w2)"
    by (auto simp: begin_method_part_def split: option.splits)
  note e2 = extends_load_instance[OF w2 e1]
  from assms(1) w1 w2 obtain w3 where w3: "load_arguments T isStatic args numArgs w2 = Some w3"
    by (auto simp: begin_method_part_def split: option.splits)
  note e3 = extends_load_arguments[OF w3 e2(1)]
  have f3: "m_fresh w0 < m_fresh w3"
    using f1 e2(3)
      extends_trans_fields(1)[OF extends_load_arguments[OF w3
          extends_refl[OF extends_trans_fields(4)[OF e2(1)]]]]
    by linarith
  have rest: "\<not> FAILED (WriteBeginMethod_status T)"
    "cl = \<lparr>m_Flags = COR_ILEXCEPTION_CLAUSE_NONE, m_pTryBegin = m_fresh w0,
            m_pTryEnd = Suc (Suc (Suc (m_fresh w3))), m_pHandlerBegin = Suc (Suc (Suc (m_fresh w3))),
            m_pHandlerEnd = Suc (Suc (Suc (Suc (m_fresh w3)))), m_ClassToken = GetExceptionTypeRef T\<rparr>"
    "firstInstruction = m_fresh w0"
    "w = set_m_pTarget (Suc (Suc (Suc (Suc (m_fresh w3))))) (m_ILInstr w3)
          (set_m_pTarget (Suc (Suc (m_fresh w3))) (m_ILInstr w3)
            (snd (emit CEE_LEAVE_S 0 (snd (emit CEE_CALL (LogException_ref T)
              (snd (emit CEE_LEAVE_S 0 (snd (emit CEE_STLOC (callTargetStateIndex T)
                (snd (emit CEE_CALL (BeginMethod_ref T) w3)))))))))))"
    using assms(1) w1 w2 w3
    by (auto simp: begin_method_part_def WriteBeginMethod_def emitters Let_def split_beta
          split: if_splits)
  show "extends w0 w" unfolding rest(4) using e3 f3
    by (auto intro!: extends_set_target extends_emit)
  show "firstInstruction = m_fresh w0" by (rule rest(3))
  show "m_Flags cl = COR_ILEXCEPTION_CLAUSE_NONE \<and> m_ClassToken cl = GetExceptionTypeRef T
         \<and> m_pTryBegin cl = firstInstruction \<and> m_pTryEnd cl = m_pHandlerBegin cl
         \<and> m_pHandlerBegin cl < m_pHandlerEnd cl \<and> firstInstruction < m_pHandlerBegin cl
         \<and> m_pHandlerEnd cl < m_fresh w"
    unfolding rest(2,3,4) using f3 by simp
qed

lemma insert_behind_last:
  "distinct (map node il) \<Longrightarrow> il \<noteq> [] \<Longrightarrow> insert_behind (node (last il)) i il = il @ [i]"
proof (induction il)
  case Nil
  then show ?case by simp
next
  case (Cons x xs)
  show ?case
  proof (cases "xs = []")
    case True
    then show ?thesis by simp
  next
    case False
    then have "last xs \<in> set xs" by simp
    then have "node x \<noteq> node (last xs)" using Cons.prems(1) by auto
    then show ?thesis using Cons False by simp
  qed
qed

lemma append_method_return_eq:
  assumes "wf_rewriter w" and "append_method_return w = (mr, w')"
  shows "mr = m_fresh w"
    and "m_IL w' = m_IL w @ [\<lparr>node = mr, m_opcode = CEE_RET, m_Arg = 0, m_pTarget = None\<rparr>]"
    and "m_ILInstr w' = mr" and "m_fresh w' = Suc mr" and "m_pEH w' = m_pEH w"
    and "wf_rewriter w'" and "before_pos w' = m_IL w"
    and "after_pos w' = [\<lparr>node = mr, m_opcode = CEE_RET, m_Arg = 0, m_pTarget = None\<rparr>]"
proof -
  let ?r = "\<lparr>node = m_fresh w, m_opcode = CEE_RET, m_Arg = 0, m_pTarget = None\<rparr>"
  have ins: "InsertAfter (head_m_pPrev (m_IL w)) ?r (m_IL w) = m_IL w @ [?r]"
  proof (cases "m_IL w = []")
    case True
    then show ?thesis by (simp add: InsertAfter_def head_m_pPrev_def)
  next
    case False
    then have "last (m_IL w) \<in> set (m_IL w)" by simp
    then have "0 < node (last (m_IL w))" using assms(1) by (auto simp: wf_rewriter_def)
    then have nz: "head_m_pPrev (m_IL w) \<noteq> 0" using False by (simp add: head_m_pPrev_def)
    have "insert_behind (head_m_pPrev (m_IL w)) ?r (m_IL w) = m_IL w @ [?r]"
      using False assms(1) insert_behind_last[of "m_IL w" ?r]
      by (simp add: head_m_pPrev_def wf_rewriter_def)
    then show ?thesis unfolding InsertAfter_def using nz by simp
  qed
  from assms(2) ins show mr: "mr = m_fresh w"
    and il: "m_IL w' = m_IL w @ [\<lparr>node = mr, m_opcode = CEE_RET, m_Arg = 0, m_pTarget = None\<rparr>]"
    and pos: "m_ILInstr w' = mr" and "m_fresh w' = Suc mr" and "m_pEH w' = m_pEH w"
    by (auto simp: append_method_return_def NewILInstr_def SetILPosition_def Let_def)
  then show "wf_rewriter w'" using assms(1) by (auto simp: wf_rewriter_def)
  have B: "\<forall>i \<in> set (m_IL w). node i \<noteq> mr" using assms(1) mr by (auto simp: wf_rewriter_def)
  show "before_pos w' = m_IL w"
    unfolding before_pos_def il pos by (rule split_unique(1)[OF B]) simp
  show "after_pos w' = [\<lparr>node = mr, m_opcode = CEE_RET, m_Arg = 0, m_pTarget = None\<rparr>]"
    unfolding after_pos_def il pos by (rule split_unique(2)[OF B]) simp
qed

lemma load_instance_shape:
  assumes "load_instance caller isStatic w = Some (n, w')" and "m_ILInstr w < m_fresh w"
  shows "\<exists>i Z. before_pos w' = before_pos w @ i # Z \<and> node i = m_fresh w
           \<and> (m_opcode i = CEE_LDNULL \<or> m_opcode i = CEE_LDARG)
           \<and> (\<forall>z \<in> set Z. m_fresh w < node z)"
  using assms
  by (auto simp: load_instance_def LoadNull_def LoadArgument_def LoadObj_def Let_def
        split_beta emit_pos split: if_splits dest!: emit_eqD)

lemma extends_trans:
  assumes "extends w0 w1" and "extends w1 w2"
  shows "extends w0 w2"
proof -
  from assms obtain X Y where X: "before_pos w1 = before_pos w0 @ X" "\<forall>i \<in> set X. m_fresh w0 \<le> node i"
    and Y: "before_pos w2 = before_pos w1 @ Y" "\<forall>i \<in> set Y. m_fresh w1 \<le> node i"
    by (auto simp: extends_def)
  have "before_pos w2 = before_pos w0 @ (X @ Y)" using X Y by simp
  moreover have "\<forall>i \<in> set (X @ Y). m_fresh w0 \<le> node i"
    using X Y assms(1) by (auto simp: extends_def)
  ultimately show ?thesis using assms unfolding extends_def by (auto simp del: append_assoc)
qed

section \<open>Proofs: aborts of the rewriter callback and argument marshaling\<close>

lemma probe_wrapper_methods_iff:
  "probe_wrapper_methods import td names
     = (\<exists>n \<in> set names. fst (EnumMethodsWithName import td n) = S_OK
                          \<and> snd (EnumMethodsWithName import td n) \<noteq> [])"
  by (induction names) (auto simp: Let_def split: prod.splits)

text \<open>
  Claim C4. With the handler's function information and method replacement in place, if
  none of the three names \<open>OnMethodBegin\<close>, \<open>OnMethodEnd\<close>, \<open>OnAsyncMethodEnd\<close> resolves
  (status \<open>S_OK\<close> and at least one token) on the wrapper type found in the
  instrumentation module's metadata, the callback returns \<open>S_FALSE\<close> and commits no
  method body.
\<close>

theorem no_hook_aborts:
  assumes "m_functionInfo methodHandler = Some caller"
    and "m_methodReplacement methodHandler = Some method_replacement"
    and "\<forall>imm. module_id_to_info_map s (managed_profiler_module_id s) = Some imm \<longrightarrow>
           (\<forall>n \<in> set expected_wrapper_methods.
              \<not> (fst (EnumMethodsWithName (metadata_import imm)
                        (snd (FindTypeDefByName (metadata_import imm)
                               (ref_type_name (wrapper_method method_replacement)))) n) = S_OK
                 \<and> snd (EnumMethodsWithName (metadata_import imm)
                        (snd (FindTypeDefByName (metadata_import imm)
                               (ref_type_name (wrapper_method method_replacement)))) n) \<noteq> []))"
  shows "CallTarget_RewriterCallback s H moduleHandler methodHandler = Finished S_FALSE None"
  using assms
  by (auto simp: CallTarget_RewriterCallback_def probe_wrapper_methods_iff Let_def
        split: option.splits prod.splits)

lemma sint_NumberOfArguments:
  assumes "length (GetMethodArguments sig) < 2 ^ 31"
  shows "sint (NumberOfArguments sig) = int (length (GetMethodArguments sig))"
proof -
  have "int (length (GetMethodArguments sig)) < 2 ^ 31"
    using assms by (metis of_nat_less_iff of_nat_numeral of_nat_power)
  then show ?thesis
    unfolding NumberOfArguments_def signed_of_nat
    by (simp add: signed_take_bit_int_eq_self)
qed

lemma load_arguments_eq:
  "load_arguments T isStatic args numArgs w =
     (if numArgs < FASTPATH_COUNT T then
        (if \<exists>i < nat numArgs. TypeFlagByRef \<in> GetTypeFlags (args ! i) then None
         else Some (emit_all (map (\<lambda>i. (CEE_LDARG, i + (if isStatic then 0 else 1)))
                                 [0 ..< nat numArgs]) w))
      else
        (if \<exists>i < nat numArgs. TypeFlagByRef \<in> GetTypeFlags (args ! i)
               \<or> (TypeFlagBoxedType \<in> GetTypeFlags (args ! i) \<and> GetTypeTok (args ! i) = mdTokenNil)
         then None
         else Some (emit_all ((CEE_LDC_I4, nat numArgs) # (CEE_NEWARR, GetObjectTypeRef T)
                                # concat (map (slow_code isStatic args) [0 ..< nat numArgs])) w)))"
  by (auto simp: load_arguments_def load_arguments_fast_eq load_arguments_slow_eq CreateArray_def)

lemma rewrite_method_aborts:
  assumes "isStatic = (CallingConvention (method_signature caller) AND IMAGE_CEE_CS_CALLCONV_HASTHIS = 0)"
    and "numArgs = sint (NumberOfArguments (method_signature caller))"
    and "(\<forall>w. load_instance caller isStatic w = None)
         \<or> (\<forall>w. load_arguments T isStatic (GetMethodArguments (method_signature caller)) numArgs w = None)"
  shows "rewrite_method T caller rw = None"
  using assms(3) unfolding rewrite_method_def begin_method_part_def assms(1)[symmetric] assms(2)[symmetric]
  by (auto simp: Let_def split_beta split: option.splits)


text \<open>
  Claim C3. For a target that is a static method of a value type, or has a parameter
  passed by reference, or is an instance method of a generic value type without a type
  spec, the callback returns \<open>S_FALSE\<close> and commits no method body: \<open>Export\<close> is never
  reached. (The handlers hold the function information, the replacement and the module
  record, as the scan left them; the signature has fewer than \<open>2 ^ 31\<close> arguments.)
\<close>

theorem unsupported_shape_aborts:
  assumes "m_functionInfo methodHandler = Some caller"
    and "m_methodReplacement methodHandler = Some method_replacement"
    and "m_metadata moduleHandler = Some module_metadata"
    and "length (GetMethodArguments (method_signature caller)) < 2 ^ 31"
    and "isStatic = (CallingConvention (method_signature caller) AND IMAGE_CEE_CS_CALLCONV_HASTHIS = 0)"
    and "(isStatic \<and> valueType (function_type caller))
         \<or> (\<exists>i < length (GetMethodArguments (method_signature caller)).
               TypeFlagByRef \<in> GetTypeFlags (GetMethodArguments (method_signature caller) ! i))
         \<or> (\<not> isStatic \<and> valueType (function_type caller) \<and> isGeneric (function_type caller)
             \<and> type_spec (function_type caller) = mdTypeSpecNil)"
  shows "CallTarget_RewriterCallback s H moduleHandler methodHandler = Finished S_FALSE None"
proof -
  let ?args = "GetMethodArguments (method_signature caller)"
  let ?n = "sint (NumberOfArguments (method_signature caller))"
  have n: "nat ?n = length ?args" using sint_NumberOfArguments[OF assms(4)] by simp
  have "(\<forall>w. load_instance caller isStatic w = None)
         \<or> (\<forall>w. load_arguments (tokens H) isStatic ?args ?n w = None)"
    using assms(6)
  proof (elim disjE)
    assume "isStatic \<and> valueType (function_type caller)"
    then show ?thesis by (simp add: load_instance_def)
  next
    assume "\<exists>i < length ?args. TypeFlagByRef \<in> GetTypeFlags (?args ! i)"
    then have "\<forall>w. load_arguments (tokens H) isStatic ?args ?n w = None"
      unfolding load_arguments_eq n by auto
    then show ?thesis ..
  next
    assume "\<not> isStatic \<and> valueType (function_type caller) \<and> isGeneric (function_type caller)
             \<and> type_spec (function_type caller) = mdTypeSpecNil"
    then show ?thesis by (simp add: load_instance_def LoadArgument_def split_beta)
  qed
  then have "rewrite_method (tokens H) caller (Import (method_body H) (method_clauses H)) = None"
    by (rule rewrite_method_aborts[OF assms(5) refl])
  then show ?thesis
    using assms(1,2,3)
    by (auto simp: CallTarget_RewriterCallback_def Let_def split: option.splits prod.splits)
qed

lemma marshal_token_abort:
  assumes "FASTPATH_COUNT T \<le> sint (NumberOfArguments (method_signature caller))"
    and "i < nat (sint (NumberOfArguments (method_signature caller)))"
    and "TypeFlagBoxedType \<in> GetTypeFlags (GetMethodArguments (method_signature caller) ! i)"
    and "GetTypeTok (GetMethodArguments (method_signature caller) ! i) = mdTokenNil"
  shows "rewrite_method T caller rw = None"
proof -
  have "\<forall>w. load_arguments T
               (CallingConvention (method_signature caller) AND IMAGE_CEE_CS_CALLCONV_HASTHIS = 0)
               (GetMethodArguments (method_signature caller))
               (sint (NumberOfArguments (method_signature caller))) w = None"
    unfolding load_arguments_eq using assms by auto
  then show ?thesis using rewrite_method_aborts[OF refl refl] by blast
qed

text \<open>
  Claim C6. The arguments are loaded one by one (an \<open>ldarg\<close> each) exactly when
  \<open>numArgs < FASTPATH_COUNT\<close>; otherwise an object array of \<open>numArgs\<close> elements is created
  and every argument is stored into it, boxed with the token of its own type when its
  type flags ask for boxing. Either path gives up at an argument passed by reference, the
  slow path also at a boxed argument whose token is \<open>mdTokenNil\<close>, and then the whole
  rewriting returns \<open>S_FALSE\<close> (\<open>None\<close>).
\<close>

theorem load_arguments_paths:
  "load_arguments T isStatic args numArgs w =
     (if numArgs < FASTPATH_COUNT T then
        (if \<exists>i < nat numArgs. TypeFlagByRef \<in> GetTypeFlags (args ! i) then None
         else Some (emit_all (map (\<lambda>i. (CEE_LDARG, i + (if isStatic then 0 else 1)))
                                 [0 ..< nat numArgs]) w))
      else
        (if \<exists>i < nat numArgs. TypeFlagByRef \<in> GetTypeFlags (args ! i)
               \<or> (TypeFlagBoxedType \<in> GetTypeFlags (args ! i) \<and> GetTypeTok (args ! i) = mdTokenNil)
         then None
         else Some (emit_all ((CEE_LDC_I4, nat numArgs) # (CEE_NEWARR, GetObjectTypeRef T)
                                # concat (map (slow_code isStatic args) [0 ..< nat numArgs])) w)))
   \<and> (FASTPATH_COUNT T \<le> sint (NumberOfArguments (method_signature caller))
        \<and> (\<exists>i < nat (sint (NumberOfArguments (method_signature caller))).
               TypeFlagBoxedType \<in> GetTypeFlags (GetMethodArguments (method_signature caller) ! i)
               \<and> GetTypeTok (GetMethodArguments (method_signature caller) ! i) = mdTokenNil)
        \<longrightarrow> rewrite_method T caller rw = None)"
  using load_arguments_eq[of T isStatic args numArgs w] marshal_token_abort[of T caller _ rw]
  by blast

theorem no_hook_aborts_witness:
  "m_functionInfo demo_methodHandler = Some demo_function
   \<and> module_id_to_info_map demo_ready (managed_profiler_module_id demo_ready)
        = Some demo_instrumentation_metadata
   \<and> FindTypeDefByName demo_instrumentation_import ''EmptyIntegration'' = (S_OK, 6)
   \<and> \<not> probe_wrapper_methods demo_instrumentation_import 6 expected_wrapper_methods
   \<and> CallTarget_RewriterCallback demo_ready demo_host demo_moduleHandler
        (demo_methodHandler
           \<lparr>m_methodReplacement :=
              Some \<lparr>target_method = demo_target,
                    wrapper_method = demo_wrapper\<lparr>ref_type_name := ''EmptyIntegration''\<rparr>\<rparr>\<rparr>)
        = Finished S_FALSE None"
proof -
  let ?rep = "\<lparr>target_method = demo_target,
               wrapper_method = demo_wrapper\<lparr>ref_type_name := ''EmptyIntegration''\<rparr>\<rparr>"
  let ?mh = "demo_methodHandler\<lparr>m_methodReplacement := Some ?rep\<rparr>"
  have a: "m_functionInfo ?mh = Some demo_function" "m_functionInfo demo_methodHandler = Some demo_function"
    by (simp_all add: demo_methodHandler_def)
  have b: "m_methodReplacement ?mh = Some ?rep" by simp
  have m: "module_id_to_info_map demo_ready (managed_profiler_module_id demo_ready)
        = Some demo_instrumentation_metadata"
    by (simp add: demo_ready_def)
  have f: "FindTypeDefByName demo_instrumentation_import ''EmptyIntegration'' = (S_OK, 6)"
    by (simp add: demo_instrumentation_import_def)
  have p: "\<not> probe_wrapper_methods demo_instrumentation_import 6 expected_wrapper_methods"
    by (simp add: expected_wrapper_methods_def demo_instrumentation_import_def S_OK_def S_FALSE_def)
  have c: "\<forall>imm. module_id_to_info_map demo_ready (managed_profiler_module_id demo_ready) = Some imm \<longrightarrow>
           (\<forall>n \<in> set expected_wrapper_methods.
              \<not> (fst (EnumMethodsWithName (metadata_import imm)
                        (snd (FindTypeDefByName (metadata_import imm)
                               (ref_type_name (wrapper_method ?rep)))) n) = S_OK
                 \<and> snd (EnumMethodsWithName (metadata_import imm)
                        (snd (FindTypeDefByName (metadata_import imm)
                               (ref_type_name (wrapper_method ?rep)))) n) \<noteq> []))"
    unfolding m
    by (simp add: demo_instrumentation_metadata_def demo_instrumentation_import_def
          expected_wrapper_methods_def S_OK_def S_FALSE_def)
  from no_hook_aborts[OF a(1) b c, of demo_host demo_moduleHandler] a(2) m f p
  show ?thesis by simp
qed

theorem unsupported_shape_aborts_witness:
  "m_metadata demo_moduleHandler = Some demo_metadata
   \<and> TypeFlagByRef \<in> GetTypeFlags ([demo_int_argument, demo_string_argument\<lparr>GetTypeFlags := {TypeFlagByRef}\<rparr>] ! 1)
   \<and> CallTarget_RewriterCallback demo_ready demo_host demo_moduleHandler
        (demo_methodHandler
           \<lparr>m_functionInfo :=
              Some (demo_function
                      \<lparr>method_signature := demo_signature
                          \<lparr>GetMethodArguments :=
                              [demo_int_argument,
                               demo_string_argument\<lparr>GetTypeFlags := {TypeFlagByRef}\<rparr>]\<rparr>\<rparr>)\<rparr>)
        = Finished S_FALSE None"
proof -
  let ?args = "[demo_int_argument, demo_string_argument\<lparr>GetTypeFlags := {TypeFlagByRef}\<rparr>]"
  let ?caller = "demo_function\<lparr>method_signature := demo_signature\<lparr>GetMethodArguments := ?args\<rparr>\<rparr>"
  let ?mh = "demo_methodHandler\<lparr>m_functionInfo := Some ?caller\<rparr>"
  have a: "m_functionInfo ?mh = Some ?caller" by simp
  have b: "m_methodReplacement ?mh = Some (replacement demo_integration)"
    by (simp add: demo_methodHandler_def)
  have c: "m_metadata demo_moduleHandler = Some demo_metadata" by (simp add: demo_moduleHandler_def)
  have d: "length (GetMethodArguments (method_signature ?caller)) < 2 ^ 31" by simp
  have e: "(True \<and> valueType (function_type ?caller))
         \<or> (\<exists>i < length (GetMethodArguments (method_signature ?caller)).
               TypeFlagByRef \<in> GetTypeFlags (GetMethodArguments (method_signature ?caller) ! i))
         \<or> (\<not> True \<and> valueType (function_type ?caller) \<and> isGeneric (function_type ?caller)
             \<and> type_spec (function_type ?caller) = mdTypeSpecNil)"
    by (auto intro!: exI[of _ 1])
  have s: "True = (CallingConvention (method_signature ?caller) AND IMAGE_CEE_CS_CALLCONV_HASTHIS = 0)"
    by (simp add: demo_signature_def)
  from unsupported_shape_aborts[OF a b c d s e, of demo_ready demo_host] c
  show ?thesis by simp
qed

theorem load_arguments_paths_witness:
  "load_arguments demo_tokens True (GetMethodArguments demo_signature) 2 (Import demo_body [])
     = Some (emit_all [(CEE_LDARG, 0), (CEE_LDARG, 1)] (Import demo_body []))
   \<and> load_arguments (demo_tokens\<lparr>FASTPATH_COUNT := 2\<rparr>) True (GetMethodArguments demo_signature) 2
        (Import demo_body [])
     = Some (emit_all [(CEE_LDC_I4, 2), (CEE_NEWARR, 41),
                       (CEE_DUP, 0), (CEE_LDC_I4, 0), (CEE_LDARG, 0), (CEE_BOX, 0x01000010),
                       (CEE_STELEM_REF, 0),
                       (CEE_DUP, 0), (CEE_LDC_I4, 1), (CEE_LDARG, 1), (CEE_STELEM_REF, 0)]
               (Import demo_body []))
   \<and> load_arguments (demo_tokens\<lparr>FASTPATH_COUNT := 2\<rparr>) True
        [demo_int_argument\<lparr>GetTypeTok := mdTokenNil\<rparr>, demo_string_argument] 2 (Import demo_body [])
     = None"
proof -
  have u: "[0 ..< nat 2] = [0, 1]" by (simp add: upt_rec)
  have l: "\<And>P. (\<exists>i < nat 2. P i) = (P 0 \<or> P 1)"
    by (auto simp: less_Suc_eq numeral_2_eq_2)
  show ?thesis
    using load_arguments_paths[where T = demo_tokens and isStatic = True
              and args = "GetMethodArguments demo_signature" and numArgs = 2
              and w = "Import demo_body []", THEN conjunct1]
      load_arguments_paths[where T = "demo_tokens\<lparr>FASTPATH_COUNT := 2\<rparr>" and isStatic = True
              and args = "GetMethodArguments demo_signature" and numArgs = 2
              and w = "Import demo_body []", THEN conjunct1]
      load_arguments_paths[where T = "demo_tokens\<lparr>FASTPATH_COUNT := 2\<rparr>" and isStatic = True
              and args = "[demo_int_argument\<lparr>GetTypeTok := mdTokenNil\<rparr>, demo_string_argument]"
              and numArgs = 2 and w = "Import demo_body []", THEN conjunct1]
    unfolding u l
    by (simp add: demo_tokens_def demo_signature_def demo_int_argument_def demo_string_argument_def
          slow_code_def mdTokenNil_def)
qed

section \<open>Proofs: the end-hook part\<close>

lemma extends_before:
  assumes "extends w0 w"
  shows "\<exists>X. before_pos w = before_pos w0 @ X \<and> (\<forall>i \<in> set X. m_fresh w0 \<le> node i \<and> node i < m_fresh w)"
proof -
  from assms obtain X where X: "before_pos w = before_pos w0 @ X" "\<forall>i \<in> set X. m_fresh w0 \<le> node i"
    by (auto simp: extends_def)
  have "\<forall>i \<in> set (m_IL w). node i < m_fresh w" using assms by (auto simp: extends_def wf_rewriter_def)
  then have "\<forall>i \<in> set X. node i < m_fresh w" using X(1) by (auto simp: pos_split)
  with X show ?thesis by blast
qed

lemma SetILPosition_same: "m_ILInstr w = p \<Longrightarrow> SetILPosition p w = w"
  by (simp add: SetILPosition_def)

lemma extends_end_method_part:
  assumes "end_method_part T caller isStatic isVoid mr w0 = Some (sec, rethrow, cl, ef, w)"
    and "wf_rewriter w0" and "m_ILInstr w0 = mr"
  shows "extends w0 w"
    and "sec = m_fresh w0" and "rethrow = Suc (m_fresh w0)"
    and "\<exists>Y. before_pos w = before_pos w0 @ Y
               @ [\<lparr>node = ef, m_opcode = CEE_ENDFINALLY, m_Arg = 0, m_pTarget = None\<rparr>]
             \<and> (\<forall>i \<in> set Y. m_fresh w0 \<le> node i \<and> node i < ef)"
    and "m_fresh w = Suc ef"
    and "m_Flags cl = COR_ILEXCEPTION_CLAUSE_NONE \<and> m_ClassToken cl = GetExceptionTypeRef T
         \<and> m_pTryBegin cl = Suc (Suc (m_fresh w0)) \<and> m_pTryEnd cl = m_pHandlerBegin cl
         \<and> m_pTryBegin cl < m_pHandlerBegin cl
         \<and> m_pHandlerBegin cl < m_pHandlerEnd cl \<and> m_pHandlerEnd cl < ef"
proof -
  define wb where "wb = snd (emit CEE_RETHROW 0 (snd (emit CEE_STLOC (exceptionIndex T) w0)))"
  have eb: "extends w0 wb" unfolding wb_def
    by (intro extends_emit extends_refl assms(2))
  have fb: "m_fresh wb = Suc (Suc (m_fresh w0))" by (simp add: wb_def)
  have pre: "Rethrow (SetILPosition mr (snd (StLocal (exceptionIndex T) w0)))
               = (Suc (m_fresh w0), wb)"
    using assms(3) by (simp add: wb_def Rethrow_def StLocal_def SetILPosition_same prod_eq_iff)
  from assms(1) pre obtain start w3 where w3: "load_instance caller isStatic wb = Some (start, w3)"
    by (auto simp: end_method_part_def StLocal_def split_beta Let_def split: option.splits)
  note e3 = extends_load_instance[OF w3 eb]
  define w9 where "w9 =
     (let w4 = (if \<not> isVoid then snd (LoadLocal (returnValueIndex T) w3) else w3);
          w5 = snd (LoadLocal (exceptionIndex T) w4);
          w6 = snd (LoadLocal (callTargetStateIndex T) w5);
          w7 = snd (if isVoid then WriteEndVoidReturnMemberRef T w6 else WriteEndReturnMemberRef T w6);
          w8 = snd (StLocal (callTargetReturnIndex T) w7)
      in (if \<not> isVoid
          then snd (StLocal (returnValueIndex T)
                 (snd (WriteCallTargetReturnGetReturnValue T
                    (snd (LoadLocalAddress (callTargetReturnIndex T) w8)))))
          else w8))"
  have e9: "extends w0 w9" unfolding w9_def Let_def emitters
    using e3(1) by (auto intro!: extends_emit)
  have f9: "m_fresh w3 < m_fresh w9" unfolding w9_def Let_def emitters by auto
  have rest: "sec = m_fresh w0" "rethrow = Suc (m_fresh w0)"
    "cl = \<lparr>m_Flags = COR_ILEXCEPTION_CLAUSE_NONE, m_pTryBegin = start,
            m_pTryEnd = Suc (m_fresh w9), m_pHandlerBegin = Suc (m_fresh w9),
            m_pHandlerEnd = Suc (Suc (m_fresh w9)), m_ClassToken = GetExceptionTypeRef T\<rparr>"
    "ef = Suc (Suc (Suc (m_fresh w9)))"
    "w = set_m_pTarget (Suc (Suc (m_fresh w9))) ef
          (set_m_pTarget (m_fresh w9) ef
            (snd (emit CEE_ENDFINALLY 0
              (snd (emit CEE_LEAVE_S 0 (snd (emit CEE_CALL (LogException_ref T)
                (snd (emit CEE_LEAVE_S 0 w9)))))))))"
    using assms(1) pre w3 unfolding end_method_part_def w9_def
    by (auto simp: emitters Let_def split_beta split: if_splits)
  define w12 where "w12 = snd (emit CEE_LEAVE_S 0 (snd (emit CEE_CALL (LogException_ref T)
                (snd (emit CEE_LEAVE_S 0 w9)))))"
  have e12: "extends w0 w12" unfolding w12_def by (intro extends_emit e9)
  have f12: "m_fresh w12 = ef" unfolding w12_def rest(4) by simp
  have le0: "m_fresh w0 \<le> m_fresh w9" using extends_trans_fields(1)[OF e9] .
  show "extends w0 w" unfolding rest(5) using e9 le0
    by (auto intro!: extends_set_target extends_emit)
  show "sec = m_fresh w0" "rethrow = Suc (m_fresh w0)" by (rule rest)+
  show "m_fresh w = Suc ef" unfolding rest(5) by (simp add: rest(4))
  show "m_Flags cl = COR_ILEXCEPTION_CLAUSE_NONE \<and> m_ClassToken cl = GetExceptionTypeRef T
         \<and> m_pTryBegin cl = Suc (Suc (m_fresh w0)) \<and> m_pTryEnd cl = m_pHandlerBegin cl
         \<and> m_pTryBegin cl < m_pHandlerBegin cl
         \<and> m_pHandlerBegin cl < m_pHandlerEnd cl \<and> m_pHandlerEnd cl < ef"
    unfolding rest(3,4) using e3(2,3) fb f9 by simp
  from extends_before[OF e12] obtain Y where Y: "before_pos w12 = before_pos w0 @ Y"
    "\<forall>i \<in> set Y. m_fresh w0 \<le> node i \<and> node i < ef" unfolding f12 by blast
  have p12: "m_ILInstr w12 < m_fresh w12" using e12 by (auto simp: extends_def wf_rewriter_def)
  let ?e = "\<lparr>node = ef, m_opcode = CEE_ENDFINALLY, m_Arg = 0, m_pTarget = None\<rparr>"
  let ?u = "\<lambda>p i. if node i = p then i\<lparr>m_pTarget := Some ef\<rparr> else i"
  have b0: "\<forall>i \<in> set (before_pos w0). node i < m_fresh w0"
    using assms(2) by (auto simp: wf_rewriter_def pos_split)
  have u1: "map (?u (m_fresh w9)) (before_pos w0) = before_pos w0"
    by (rule map_upd_id) (use b0 le0 in auto)
  have u2: "map (?u (Suc (Suc (m_fresh w9)))) (before_pos w0) = before_pos w0"
    by (rule map_upd_id) (use b0 le0 in auto)
  have "before_pos w = before_pos w0 @ map (?u (Suc (Suc (m_fresh w9)))) (map (?u (m_fresh w9)) Y) @ [?e]"
    unfolding rest(5) set_target_pos w12_def[symmetric] emit_pos(1)[OF p12] f12 Y(1)
    using u1 u2 by (simp add: rest(4))
  moreover have "\<forall>i \<in> set (map (?u (Suc (Suc (m_fresh w9)))) (map (?u (m_fresh w9)) Y)).
                    m_fresh w0 \<le> node i \<and> node i < ef"
    using Y(2) by auto
  ultimately show "\<exists>Y. before_pos w = before_pos w0 @ Y @ [?e]
             \<and> (\<forall>i \<in> set Y. m_fresh w0 \<le> node i \<and> node i < ef)"
    by blast
qed

(*NEXT*)

end
